theory Spec2Isabelle
  imports Complex_Main
begin

section \<open>Extrema finding for gravitational-wave eccentricity (gw\_eccentricity)\<close>

text \<open>
  A shallow embedding of \<^verbatim>\<open>eccDefinitionUsingAmplitude.py\<close> and
  \<^verbatim>\<open>eccDefinitionUsingFrequencyFits.py\<close>.  Floating-point numbers are modelled as
  real numbers with exact arithmetic (rounding and overflow are outside the model); the
  infinities and NaN that the trend model produces at a division by zero and at its pole
  are values of their own.  Array indices are natural numbers.  The library routines the code calls
  (\<^verbatim>\<open>scipy.signal.find_peaks\<close>, \<^verbatim>\<open>scipy.optimize.curve_fit\<close>, the numpy
  polynomial fits) are parameters of the model.  Every \<^verbatim>\<open>raise\<close> of the source and
  every exception of an out-of-range read is a value \<open>Inl e\<close>.
\<close>

subsection \<open>Errors\<close>

datatype error =
    UnknownExtremaType          \<comment> \<open>\<^verbatim>\<open>extrema_type='...' unknown.\<close> and the amplitude variant\<close>
  | DivergenceViolation         \<comment> \<open>merger time T is within time-series to be fitted\<close>
  | DataSetTooShort             \<comment> \<open>\<^verbatim>\<open>data set too short.\<close>\<close>
  | SafetyCap                   \<comment> \<open>\<^verbatim>\<open>Detected more than 1000 extrema.\<close>\<close>
  | CouldNotIdentify            \<comment> \<open>could not identify Nbefore extrema to the left of idx\_ref\<close>
  | IndexError
  | ValueError
  | OverflowError
  | LibraryError                \<comment> \<open>an exception raised inside a library routine\<close>
  | NonFinite                   \<comment> \<open>no exception of the code: an infinity or NaN reached the
                                    tracker, where the model of real numbers ends\<close>

subsection \<open>numpy helpers\<close>

text \<open>\<^verbatim>\<open>np.pi\<close> is the double nearest to \<open>\<pi>\<close>, a rational number.\<close>

definition np_pi :: real where
  "np_pi = 884279719003555 / 281474976710656"

text \<open>\<^verbatim>\<open>np.argmax\<close> of a boolean array: the first index holding True, 0 when none does.\<close>

definition np_argmax :: "bool list \<Rightarrow> nat" where
  "np_argmax bs = (if list_ex (\<lambda>b. b) bs then length (takeWhile (\<lambda>b. \<not> b) bs) else 0)"

definition argmax_gt :: "real list \<Rightarrow> real \<Rightarrow> nat" where
  "argmax_gt xs v = np_argmax (map (\<lambda>x. x > v) xs)"

text \<open>\<^verbatim>\<open>xs[i]\<close>: an index from \<open>-len\<close> to \<open>-1\<close> counts from the end, an index
  outside \<open>-len .. len - 1\<close> raises IndexError.\<close>

definition py_index :: "'a list \<Rightarrow> int \<Rightarrow> error + 'a" where
  "py_index xs i =
     (if 0 \<le> i \<and> i < int (length xs) then Inr (xs ! nat i)
      else if - int (length xs) \<le> i \<and> i < 0 then Inr (xs ! nat (int (length xs) + i))
      else Inl IndexError)"

text \<open>The slices \<^verbatim>\<open>xs[:i]\<close> (with a possibly negative bound) and \<^verbatim>\<open>xs[lo:hi]\<close>.\<close>

definition slice_to :: "int \<Rightarrow> 'a list \<Rightarrow> 'a list" where
  "slice_to i xs = (if i < 0 then take (nat (int (length xs) + i)) xs else take (nat i) xs)"

definition slice :: "nat \<Rightarrow> nat \<Rightarrow> 'a list \<Rightarrow> 'a list" where
  "slice lo hi xs = drop lo (take hi xs)"

text \<open>Maximum and minimum of a non-empty list.\<close>

definition list_max :: "real list \<Rightarrow> real" where
  "list_max xs = fold max (tl xs) (hd xs)"

definition list_min :: "real list \<Rightarrow> real" where
  "list_min xs = fold min (tl xs) (hd xs)"

subsection \<open>Choice of polarity\<close>




subsection \<open>The trend model\<close>

type_synonym params = "real \<times> real \<times> real"

text \<open>The floating-point values of numpy: a real number, an infinity or NaN.  The real
  number 0 stands for the double \<open>+0.0\<close> (a difference \<open>x - x\<close> and a lower
  bound \<open>0\<close> are \<open>+0.0\<close>).\<close>

datatype npfloat = is_Finite: Finite (the_Finite: real) | PosInf | NegInf | NaN

text \<open>Arithmetic on numpy scalars and arrays does not raise: it gives an infinity or NaN
  (and a warning).  \<open>x / y\<close> for two finite numbers:\<close>

definition np_divide :: "real \<Rightarrow> real \<Rightarrow> npfloat" where
  "np_divide x y =
     (if y \<noteq> 0 then Finite (x / y)
      else if x > 0 then PosInf else if x < 0 then NegInf else NaN)"

fun np_negative :: "npfloat \<Rightarrow> npfloat" where
  "np_negative (Finite x) = Finite (- x)"
| "np_negative PosInf = NegInf"
| "np_negative NegInf = PosInf"
| "np_negative NaN = NaN"

text \<open>An infinity times a finite number \<open>x\<close> has the sign of \<open>x\<close>; times zero it
  is NaN.\<close>

definition signed_inf :: "real \<Rightarrow> npfloat" where
  "signed_inf x = (if x > 0 then PosInf else if x < 0 then NegInf else NaN)"

fun np_multiply :: "npfloat \<Rightarrow> npfloat \<Rightarrow> npfloat" where
  "np_multiply (Finite x) (Finite y) = Finite (x * y)"
| "np_multiply (Finite x) PosInf = signed_inf x"
| "np_multiply (Finite x) NegInf = signed_inf (- x)"
| "np_multiply PosInf (Finite y) = signed_inf y"
| "np_multiply NegInf (Finite y) = signed_inf (- y)"
| "np_multiply PosInf PosInf = PosInf"
| "np_multiply PosInf NegInf = NegInf"
| "np_multiply NegInf PosInf = NegInf"
| "np_multiply NegInf NegInf = PosInf"
| "np_multiply NaN b = NaN"
| "np_multiply a NaN = NaN"

text \<open>\<^verbatim>\<open>b ** e\<close> for a finite base, as the C function \<^verbatim>\<open>pow\<close> defines it:
  anything to the power 0 is 1; zero to a negative power is \<open>+inf\<close>; a negative base
  has a power only for an integer exponent.\<close>

fun np_power :: "real \<Rightarrow> npfloat \<Rightarrow> npfloat" where
  "np_power b (Finite e) =
     (if e = 0 then Finite 1
      else if b > 0 then Finite (b powr e)
      else if b = 0 then (if e > 0 then Finite 0 else PosInf)
      else if e = of_int \<lfloor>e\<rfloor> then Finite (power_int b \<lfloor>e\<rfloor>)
      else NaN)"
| "np_power b PosInf =
     (if \<bar>b\<bar> < 1 then Finite 0 else if \<bar>b\<bar> = 1 then Finite 1 else PosInf)"
| "np_power b NegInf =
     (if \<bar>b\<bar> < 1 then PosInf else if \<bar>b\<bar> = 1 then Finite 1 else Finite 0)"
| "np_power b NaN = (if b = 1 then Finite 1 else NaN)"

text \<open>\<^verbatim>\<open>envelope_fitting_function.__call__\<close>, lines 29--43, for an instance with
  reference time \<open>t0\<close>.  The parameters are numpy scalars, as in every call the program
  makes (\<open>t0\<close> is computed from array elements at line 221, and \<open>f0, f1, T\<close> are
  elements of an array whenever \<^verbatim>\<open>curve_fit\<close> or the tracker makes the call), so
  lines 33 and 34 do not raise.  (Called with Python floats only, line 33 raises
  ZeroDivisionError when \<open>f0 = 0\<close>; the program makes no such call.)
  \<^verbatim>\<open>t.max()\<close> of an empty array raises ValueError.\<close>

definition envelope_n :: "real \<Rightarrow> real \<Rightarrow> real \<Rightarrow> real \<Rightarrow> npfloat" where
  "envelope_n t0 f0 f1 T = np_divide (- (T - t0) * f1) f0"

definition envelope_A :: "real \<Rightarrow> real \<Rightarrow> real \<Rightarrow> real \<Rightarrow> npfloat" where
  "envelope_A t0 f0 f1 T =
     np_multiply (Finite f0) (np_power (T - t0) (np_negative (envelope_n t0 f0 f1 T)))"

definition envelope_fitting_function ::
  "real \<Rightarrow> real list \<Rightarrow> params \<Rightarrow> error + npfloat list" where
  "envelope_fitting_function t0 t p =
     (case p of (f0, f1, T) \<Rightarrow>
        let n = envelope_n t0 f0 f1 T;
            A = envelope_A t0 f0 f1 T
        in if t = [] then Inl ValueError
           else if list_max t > T then Inl DivergenceViolation
           else Inr (map (\<lambda>x. np_multiply A (np_power (T - x) n)) t))"

subsection \<open>The global fit of \<^verbatim>\<open>find_extrema\<close>\<close>

record waveform =
  t_analyse :: "real list"
  phase22_analyse :: "real list"
  omega22_analyse :: "real list"

text \<open>Lines 209--213: the end of the stretch used for the global fit.\<close>

definition global_idx_end :: "waveform \<Rightarrow> int" where
  "global_idx_end w =
     (let idx_end = argmax_gt (phase22_analyse w) (hd (phase22_analyse w) + 10 * 4 * np_pi)
      in if idx_end = 0 then - 1 else int idx_end)"

definition fit_center_time :: "waveform \<Rightarrow> real" where
  "fit_center_time w = 0.5 * (hd (t_analyse w) + last (t_analyse w))"



definition bounds0 :: "waveform \<Rightarrow> real \<Rightarrow> params \<times> params" where
  "bounds0 w f0 =
     ((0, 0, 0.8 * last (t_analyse w)),
      (10 * f0, 10 * f0 / (- fit_center_time w), - fit_center_time w))"

text \<open>Lines 269--272: the samples handed to \<^verbatim>\<open>curve_fit\<close>.\<close>

definition global_fit_times :: "waveform \<Rightarrow> real list" where
  "global_fit_times w = slice_to (global_idx_end w) (t_analyse w)"


text \<open>A value of T lies in the box when it is between the third components of the
  two corners (both ends included, as \<^verbatim>\<open>curve_fit\<close> treats bounds).\<close>

definition T_admitted :: "params \<times> params \<Rightarrow> real \<Rightarrow> bool" where
  "T_admitted bounds T =
     (case bounds of ((_, _, T_lo), (_, _, T_hi)) \<Rightarrow> T_lo \<le> T \<and> T \<le> T_hi)"

subsection \<open>The windowed extrema tracker: data\<close>

text \<open>Sequencing of computations that may raise.\<close>

definition bind_err :: "error + 'a \<Rightarrow> ('a \<Rightarrow> error + 'b) \<Rightarrow> error + 'b" where
  "bind_err m f = (case m of Inl e \<Rightarrow> Inl e | Inr v \<Rightarrow> f v)"


text \<open>The library routines: \<^verbatim>\<open>scipy.signal.find_peaks(x, width, prominence)\<close> (indices
  relative to \<open>x\<close>), \<^verbatim>\<open>scipy.optimize.curve_fit(f, xdata, ydata, p0, bounds)\<close>, the
  quadratic fit of lines 602--603 and 610 (giving \<^verbatim>\<open>t_max\<close> and
  \<^verbatim>\<open>parabola(t_max)\<close>) and the cubic fit of lines 614--615 evaluated at \<^verbatim>\<open>t_max\<close>.\<close>

record library =
  find_peaks :: "real list \<Rightarrow> int \<Rightarrow> real \<Rightarrow> nat list"
  curve_fit :: "(real list \<Rightarrow> params \<Rightarrow> error + real list) \<Rightarrow> real list \<Rightarrow> real list
                  \<Rightarrow> params \<Rightarrow> params \<times> params \<Rightarrow> error + params"
  parabola_fit :: "real list \<Rightarrow> real list \<Rightarrow> error + real \<times> real"
  cubic_fit_at :: "real list \<Rightarrow> real list \<Rightarrow> real \<Rightarrow> error + real"

text \<open>The arguments of \<^verbatim>\<open>FindExtremaNearIdxRef\<close> that stay fixed during a call.\<close>

record tracker_args =
  t_arr :: "real list"
  phase22 :: "real list"
  omega22 :: "real list"
  sign_arg :: real
  Nbefore :: nat
  Nafter :: nat
  f_fit :: "real list \<Rightarrow> params \<Rightarrow> error + real list"
  bounds :: "params \<times> params"
  TOL :: real
  increase_idx_ref_if_needed :: bool
  refine_extrema :: bool

text \<open>The local variables of its \<^verbatim>\<open>while True\<close> loop.  \<open>prominence = None\<close> is the
  source's flag that width and prominence are to be computed; otherwise the field holds
  the pair (width, prominence) in use.\<close>

record tracker_state =
  idx_lo :: nat
  idx_hi :: nat
  idx_ref :: nat
  p_cur :: params
  K_cur :: real
  it :: nat
  old_extrema :: "real list"
  old_idx :: "int \<times> int"
  Count_Nright_short :: nat
  prominence :: "(int \<times> real) option"

text \<open>What one pass over lines 518--559 finds in the window.\<close>

record observation =
  ob_cfg :: "int \<times> real"
  ob_idx_extrema :: "nat list"
  ob_t_extrema :: "real list"
  ob_omega22_extrema :: "real list"
  ob_phase22_extrema :: "real list"

text \<open>The returned tuple \<^verbatim>\<open>idx_extrema, p, K, idx_ref, extrema_refined\<close>.\<close>

record tracker_out =
  out_idx_extrema :: "nat list"
  out_p :: params
  out_K :: real
  out_idx_ref :: nat
  out_extrema_refined :: "real list \<times> real list \<times> real list"

text \<open>The three \<^verbatim>\<open>return\<close> statements of the loop: line 580 (no extremum, or more
  than 20 iterations), line 761 (shortfall) and line 772 (converged).\<close>

datatype exit = EarlyExit | ShortfallExit | ConvergedExit

datatype iteration =
    Returned exit tracker_out
  | Next tracker_state
  | Raised error

subsection \<open>The windowed extrema tracker: one iteration\<close>

text \<open>\<^verbatim>\<open>int(x)\<close> of a float truncates towards zero.\<close>

definition py_int :: "real \<Rightarrow> int" where
  "py_int x = (if x \<ge> 0 then \<lfloor>x\<rfloor> else \<lceil>x\<rceil>)"

text \<open>\<^verbatim>\<open>np.diff\<close>.\<close>

fun np_diff :: "real list \<Rightarrow> real list" where
  "np_diff (x # y # zs) = (y - x) # np_diff (y # zs)"
| "np_diff _ = []"

text \<open>Lines 535--539.  A maximum over an empty array raises ValueError; a division by
  zero gives an infinity, on which \<^verbatim>\<open>int\<close> raises OverflowError.\<close>

definition peak_config :: "real list \<Rightarrow> real list \<Rightarrow> real list \<Rightarrow> error + int \<times> real" where
  "peak_config t_win omega_win omega_residual =
     (if np_diff t_win = [] then Inl ValueError
      else let maxdt = list_max (np_diff t_win) in
        if omega_win = [] then Inl ValueError
        else if list_max omega_win = 0 \<or> maxdt = 0 then Inl OverflowError
        else let width = py_int (0.5 * 2 * np_pi / list_max omega_win / maxdt) in
          if omega_residual = [] then Inl ValueError
          else Inr (width, (list_max omega_residual - list_min omega_residual) * 0.03))"

text \<open>Fancy indexing \<^verbatim>\<open>xs[idx]\<close> with an index array.\<close>

definition gather :: "'a list \<Rightarrow> nat list \<Rightarrow> error + 'a list" where
  "gather xs idx =
     (if list_all (\<lambda>i. i < length xs) idx then Inr (map (\<lambda>i. xs ! i) idx) else Inl IndexError)"

text \<open>Lines 518--559 without the counter: residual, detector configuration, detection,
  and the values at the detected indices.\<close>

definition find_window_extrema ::
  "library \<Rightarrow> tracker_args \<Rightarrow> tracker_state \<Rightarrow> error + observation" where
  "find_window_extrema lib a s =
     (let t_win = slice (idx_lo s) (idx_hi s) (t_arr a);
          omega_win = slice (idx_lo s) (idx_hi s) (omega22 a)
      in bind_err (f_fit a t_win (p_cur s)) (\<lambda>trend.
         let omega_residual = map2 (\<lambda>x y. x - y) omega_win trend
         in bind_err (case prominence s of
                        None \<Rightarrow> peak_config t_win omega_win omega_residual
                      | Some c \<Rightarrow> Inr c) (\<lambda>cfg.
            let rel = find_peaks lib (map (\<lambda>x. sign_arg a * x) omega_residual) (fst cfg) (snd cfg);
                idx_extrema = map (\<lambda>i. i + idx_lo s) rel
            in bind_err (gather (t_arr a) idx_extrema) (\<lambda>t_extrema.
               bind_err (gather (omega22 a) idx_extrema) (\<lambda>omega22_extrema.
               bind_err (gather (phase22 a) idx_extrema) (\<lambda>phase22_extrema.
               bind_err (gather omega_residual rel) (\<lambda>omega_residual_extrema.
                 Inr \<lparr> ob_cfg = cfg, ob_idx_extrema = idx_extrema,
                       ob_t_extrema = t_extrema, ob_omega22_extrema = omega22_extrema,
                       ob_phase22_extrema = phase22_extrema \<rparr>)))))))"

text \<open>Lines 551--552.\<close>

definition Nleft_of :: "nat list \<Rightarrow> nat \<Rightarrow> nat" where
  "Nleft_of idx_extrema ref = length (filter (\<lambda>i. i < ref) idx_extrema)"

definition Nright_of :: "nat list \<Rightarrow> nat \<Rightarrow> nat" where
  "Nright_of idx_extrema ref = length (filter (\<lambda>i. i \<ge> ref) idx_extrema)"

text \<open>Lines 588--617: the refinement of extremum \<open>k\<close>.  \<^verbatim>\<open>0.05 / omega\<close> with
  \<open>omega = 0\<close> is an infinity, so every sample is within it.\<close>

definition refine_one ::
  "library \<Rightarrow> tracker_args \<Rightarrow> params \<Rightarrow> nat
    \<Rightarrow> real list \<times> real list \<times> real list \<Rightarrow> error + real list \<times> real list \<times> real list" where
  "refine_one lib a p k ex =
     (case ex of (t_extrema, omega22_extrema, phase22_extrema) \<Rightarrow>
        let om = omega22_extrema ! k;
            tk = t_extrema ! k;
            idx_refine = map (\<lambda>x. om = 0 \<or> \<bar>x - tk\<bar> < 0.05 / om) (t_arr a);
            pick = (\<lambda>xs. map fst (filter snd (zip xs idx_refine)));
            N_refine = length (filter (\<lambda>b. b) idx_refine)
        in if N_refine \<ge> 7 then
             let t_parafit = pick (t_arr a)
             in bind_err (f_fit a t_parafit p) (\<lambda>trend.
                bind_err (parabola_fit lib t_parafit
                            (map2 (\<lambda>x y. x - y) (pick (omega22 a)) trend)) (\<lambda>(t_max, par_max).
                bind_err (f_fit a [t_max] p) (\<lambda>trend_max.
                bind_err (cubic_fit_at lib t_parafit (pick (phase22 a)) t_max) (\<lambda>ph_max.
                  Inr (t_extrema[k := t_max],
                       omega22_extrema[k := par_max + hd trend_max],
                       phase22_extrema[k := ph_max])))))
           else Inr ex)"

fun refine_all ::
  "library \<Rightarrow> tracker_args \<Rightarrow> params \<Rightarrow> nat list
    \<Rightarrow> real list \<times> real list \<times> real list \<Rightarrow> error + real list \<times> real list \<times> real list" where
  "refine_all lib a p [] ex = Inr ex"
| "refine_all lib a p (k # ks) ex =
     bind_err (refine_one lib a p k ex) (refine_all lib a p ks)"

text \<open>\<^verbatim>\<open>int((a + b)/2)\<close> for two indices.\<close>

definition midpoint :: "nat \<Rightarrow> nat \<Rightarrow> nat" where
  "midpoint a b = (a + b) div 2"

text \<open>Lines 652--688: the left end of the window and the reference index.  The result
  is the new \<^verbatim>\<open>idx_lo\<close>, the new \<^verbatim>\<open>idx_ref\<close> and the (possibly decremented)
  \<^verbatim>\<open>Nright\<close>.\<close>

definition adjust_left ::
  "tracker_args \<Rightarrow> nat list \<Rightarrow> nat \<Rightarrow> nat \<Rightarrow> real \<Rightarrow> nat \<Rightarrow> nat \<Rightarrow> error + nat \<times> nat \<times> nat" where
  "adjust_left a idx_extrema Nleft Nright K lo ref =
     (if Nleft > Nbefore a then
        bind_err (py_index idx_extrema (int Nleft - int (Nbefore a) - 1)) (\<lambda>e1.
        bind_err (py_index idx_extrema (int Nleft - int (Nbefore a))) (\<lambda>e2.
          Inr (midpoint e1 e2, ref, Nright)))
      else if Nleft < Nbefore a then
        (if lo = 0 then
           (if increase_idx_ref_if_needed a then
              (if Nright \<ge> 2 then
                 let tmp = np_argmax (map (\<lambda>i. i \<ge> ref) idx_extrema)
                 in bind_err (py_index idx_extrema (int tmp)) (\<lambda>e1.
                    bind_err (py_index idx_extrema (int tmp + 1)) (\<lambda>e2.
                      Inr (lo, midpoint e1 e2, Nright - 1)))
               else Inr (lo, ref, Nright))
            else Inl CouldNotIdentify)
         else
           bind_err (py_index (phase22 a) (int lo)) (\<lambda>ph.
             Inr (argmax_gt (phase22 a) (ph - K * 4 * np_pi * 0.6), ref, Nright)))
      else Inr (lo, ref, Nright))"

text \<open>Lines 691--717: the right end of the window.\<close>

definition adjust_right ::
  "tracker_args \<Rightarrow> nat list \<Rightarrow> nat \<Rightarrow> real \<Rightarrow> nat \<Rightarrow> error + nat" where
  "adjust_right a idx_extrema Nright K hi =
     (if Nright > Nafter a then
        bind_err (py_index idx_extrema (int (Nafter a) - int Nright)) (\<lambda>e1.
        bind_err (py_index idx_extrema (int (Nafter a) - int Nright - 1)) (\<lambda>e2.
          Inr (midpoint e1 e2)))
      else if Nright < Nafter a then
        (if hi < length (phase22 a) then
           let phase_hi = phase22 a ! hi + K * 4 * np_pi * 0.6;
               hi' = argmax_gt (phase22 a) phase_hi
           in Inr (if hi' = 0 then length (phase22 a) else hi')
         else Inr hi)
      else Inr hi)"

text \<open>Lines 650--717 together: new \<^verbatim>\<open>idx_lo\<close>, \<^verbatim>\<open>idx_hi\<close> and \<^verbatim>\<open>idx_ref\<close>.\<close>

definition adjust_window ::
  "tracker_args \<Rightarrow> nat list \<Rightarrow> real \<Rightarrow> tracker_state \<Rightarrow> error + nat \<times> nat \<times> nat" where
  "adjust_window a idx_extrema K s =
     (let Nleft = Nleft_of idx_extrema (idx_ref s);
          Nright = Nright_of idx_extrema (idx_ref s)
      in if Nleft \<noteq> Nbefore a \<or> Nright \<noteq> Nafter a then
           bind_err (adjust_left a idx_extrema Nleft Nright K (idx_lo s) (idx_ref s))
             (\<lambda>(lo, ref, Nright').
                bind_err (adjust_right a idx_extrema Nright' K (idx_hi s)) (\<lambda>hi.
                  Inr (lo, hi, ref)))
         else Inr (idx_lo s, idx_hi s, idx_ref s))"

text \<open>Line 719: the window differs from the one remembered.\<close>

definition window_changed :: "tracker_state \<Rightarrow> nat \<Rightarrow> nat \<Rightarrow> bool" where
  "window_changed s lo hi = ((int lo, int hi) \<noteq> old_idx s)"

text \<open>Lines 629--631 and 645--646.\<close>

definition update_K :: "real \<Rightarrow> real list \<Rightarrow> real" where
  "update_K K phase22_extrema =
     (if length phase22_extrema \<ge> 2
      then (last phase22_extrema - hd phase22_extrema)
            / (4 * np_pi * (real (length phase22_extrema) - 1))
      else K)"

definition update_Count :: "tracker_args \<Rightarrow> tracker_state \<Rightarrow> nat list \<Rightarrow> nat" where
  "update_Count a s idx_extrema =
     (if Nright_of idx_extrema (idx_ref s) < Nafter a
      then Count_Nright_short s + 1 else Count_Nright_short s)"

text \<open>Lines 742--747.\<close>

definition max_delta_omega :: "real list \<Rightarrow> real list \<Rightarrow> real" where
  "max_delta_omega omega22_extrema old =
     (if length omega22_extrema \<noteq> length old then 10 ^ 99
      else list_max (map2 (\<lambda>x y. \<bar>x - y\<bar>) omega22_extrema old))"

text \<open>Line 749.\<close>

definition shortfall :: "nat \<Rightarrow> nat \<Rightarrow> nat \<Rightarrow> bool" where
  "shortfall Count N_extrema it' = (Count \<ge> 5 \<or> N_extrema < 5 \<or> it' > 20)"

text \<open>Lines 742--807: the window stands; return or refit.\<close>

definition settle ::
  "library \<Rightarrow> tracker_args \<Rightarrow> tracker_state \<Rightarrow> nat list
     \<Rightarrow> real list \<times> real list \<times> real list \<Rightarrow> iteration" where
  "settle lib a s idx_extrema ex =
     (let omega22_extrema = fst (snd ex);
          res = \<lparr> out_idx_extrema = idx_extrema, out_p = p_cur s, out_K = K_cur s,
                  out_idx_ref = idx_ref s, out_extrema_refined = ex \<rparr>
      in if shortfall (Count_Nright_short s) (length idx_extrema) (it s) then
           Returned ShortfallExit res
         else if max_delta_omega omega22_extrema (old_extrema s) < TOL a then
           Returned ConvergedExit res
         else
           (case curve_fit lib (f_fit a) (fst ex) omega22_extrema (p_cur s) (bounds a) of
              Inl e \<Rightarrow> Raised e
            | Inr p' \<Rightarrow>
                Next (s\<lparr> p_cur := p', prominence := None, old_extrema := omega22_extrema \<rparr>)))"

text \<open>Lines 518--717: the first part of the body of the \<^verbatim>\<open>while True\<close> loop.
  It ends either at the \<^verbatim>\<open>return\<close> of line 580 or with the extrema found, the
  updated variables (among them the adjusted window) and the outcome of the test of
  line 650.\<close>

record survey =
  sv_state :: tracker_state
  sv_idx_extrema :: "nat list"
  sv_extrema :: "real list \<times> real list \<times> real list"
  sv_mismatch :: bool

datatype surveyed = NoneOrCap tracker_out | Found survey

definition survey_window ::
  "library \<Rightarrow> tracker_args \<Rightarrow> tracker_state \<Rightarrow> error + surveyed" where
  "survey_window lib a s0 =
     (let s = s0\<lparr> it := it s0 + 1 \<rparr>
      in bind_err (find_window_extrema lib a s) (\<lambda>ob.
         let idx_extrema = ob_idx_extrema ob;
             ex0 = (ob_t_extrema ob, ob_omega22_extrema ob, ob_phase22_extrema ob)
         in if length idx_extrema = 0 \<or> it s > 20 then
              Inr (NoneOrCap
                    \<lparr> out_idx_extrema = idx_extrema, out_p = p_cur s, out_K = K_cur s,
                      out_idx_ref = idx_ref s, out_extrema_refined = ex0 \<rparr>)
            else
              bind_err (if refine_extrema a
                        then refine_all lib a (p_cur s) [0..<length idx_extrema] ex0
                        else Inr ex0) (\<lambda>ex.
                let K = update_K (K_cur s) (snd (snd ex));
                    s1 = s\<lparr> K_cur := K, Count_Nright_short := update_Count a s idx_extrema,
                           prominence := Some (ob_cfg ob) \<rparr>
                in bind_err (adjust_window a idx_extrema K s) (\<lambda>(lo, hi, ref).
                     Inr (Found
                       \<lparr> sv_state = s1\<lparr> idx_lo := lo, idx_hi := hi, idx_ref := ref \<rparr>,
                         sv_idx_extrema = idx_extrema, sv_extrema = ex,
                         sv_mismatch = (Nleft_of idx_extrema (idx_ref s) \<noteq> Nbefore a
                                         \<or> Nright_of idx_extrema (idx_ref s) \<noteq> Nafter a) \<rparr>)))))"

text \<open>One pass through the whole body, lines 518--807: after the survey, lines 719--725
  go back to the start of the loop when the counts are not as wished and the window
  differs from the one remembered; otherwise the window stands.\<close>

definition tracker_iteration :: "library \<Rightarrow> tracker_args \<Rightarrow> tracker_state \<Rightarrow> iteration" where
  "tracker_iteration lib a s0 =
     (case survey_window lib a s0 of
        Inl e \<Rightarrow> Raised e
      | Inr (NoneOrCap r) \<Rightarrow> Returned EarlyExit r
      | Inr (Found sv) \<Rightarrow>
          let s = sv_state sv
          in if sv_mismatch sv \<and> window_changed s (idx_lo s) (idx_hi s)
             then Next (s\<lparr> old_idx := (int (idx_lo s), int (idx_hi s)) \<rparr>)
             else settle lib a s (sv_idx_extrema sv) (sv_extrema sv))"

subsection \<open>The windowed extrema tracker: the loop and the entry point\<close>

lemma settle_Next_it: "settle lib a s idx ex = Next s' \<Longrightarrow> it s' = it s"
  by (auto simp: settle_def Let_def split: if_splits sum.splits)

lemma survey_window_Found_it:
  assumes "survey_window lib a s = Inr (Found sv)"
  shows "it (sv_state sv) = it s + 1 \<and> it (sv_state sv) \<le> 20"
  using assms
  by (auto simp: survey_window_def bind_err_def Let_def split: if_splits sum.splits prod.splits)

lemma tracker_iteration_Next_it:
  assumes "tracker_iteration lib a s = Next s'"
  shows "it s' = it s + 1 \<and> it s' \<le> 20"
  using assms
  by (auto simp: tracker_iteration_def Let_def split: if_splits sum.splits surveyed.splits
           dest!: settle_Next_it survey_window_Found_it)

function tracker_loop ::
  "library \<Rightarrow> tracker_args \<Rightarrow> tracker_state \<Rightarrow> error + exit \<times> tracker_out" where
  "tracker_loop lib a s =
     (case tracker_iteration lib a s of
        Raised e \<Rightarrow> Inl e
      | Returned x r \<Rightarrow> Inr (x, r)
      | Next s' \<Rightarrow> tracker_loop lib a s')"
  by pat_completeness auto
termination
  by (relation "measure (\<lambda>(lib, a, s). 21 - it s)")
     (auto dest!: tracker_iteration_Next_it)

declare tracker_loop.simps [simp del]

text \<open>\<^verbatim>\<open>FindExtremaNearIdxRef\<close>, lines 483--503 and the loop.  The result carries,
  besides the returned tuple, which \<^verbatim>\<open>return\<close> statement produced it.\<close>

definition initial_state :: "tracker_args \<Rightarrow> nat \<Rightarrow> real \<Rightarrow> params \<Rightarrow> error + tracker_state" where
  "initial_state a ref K p_initial =
     bind_err (py_index (phase22 a) (int ref)) (\<lambda>ph.
       let DeltaPhase = 4 * np_pi * K;
           lo = argmax_gt (phase22 a) (ph - DeltaPhase * real (Nbefore a));
           hi = argmax_gt (phase22 a) (ph + DeltaPhase * real (Nafter a))
       in Inr \<lparr> idx_lo = lo, idx_hi = (if hi = 0 then length (phase22 a) else hi),
                idx_ref = ref, p_cur = p_initial, K_cur = K, it = 0,
                old_extrema = replicate (Nbefore a + Nafter a) 0,
                old_idx = (- 1, - 1), Count_Nright_short = 0, prominence = None \<rparr>)"

definition FindExtremaNearIdxRef ::
  "library \<Rightarrow> tracker_args \<Rightarrow> nat \<Rightarrow> real \<Rightarrow> params \<Rightarrow> error + exit \<times> tracker_out" where
  "FindExtremaNearIdxRef lib a ref K p_initial =
     bind_err (initial_state a ref K p_initial) (tracker_loop lib a)"

subsection \<open>The driving loop of \<^verbatim>\<open>find_extrema\<close>\<close>

text \<open>Line 176: the number of extrema sought to the left of the reference index.\<close>

definition N :: nat where
  "N = 3"

text \<open>The variables of the loop of lines 304--357 and the lists it fills.\<close>

record driver_state =
  d_count :: nat
  d_idx_ref :: nat
  d_K :: real
  d_p :: params
  extrema :: "nat list"
  t_extrema_refined :: "real list"
  omega22_extrema_refined :: "real list"
  phase22_extrema_refined :: "real list"

datatype driver_step = Finished driver_state | Again driver_state | Failed error

text \<open>Lines 330--333 and 340--343: report extremum \<open>k\<close> of a tracker result.\<close>

definition emit_at :: "tracker_out \<Rightarrow> nat \<Rightarrow> driver_state \<Rightarrow> error + driver_state" where
  "emit_at r k d =
     (case out_extrema_refined r of (te, om, ph) \<Rightarrow>
        bind_err (py_index (out_idx_extrema r) (int k)) (\<lambda>i.
        bind_err (py_index te (int k)) (\<lambda>tv.
        bind_err (py_index om (int k)) (\<lambda>ov.
        bind_err (py_index ph (int k)) (\<lambda>pv.
          Inr (d\<lparr> extrema := extrema d @ [i],
                  t_extrema_refined := t_extrema_refined d @ [tv],
                  omega22_extrema_refined := omega22_extrema_refined d @ [ov],
                  phase22_extrema_refined := phase22_extrema_refined d @ [pv] \<rparr>))))))"

fun emit_range :: "tracker_out \<Rightarrow> nat list \<Rightarrow> driver_state \<Rightarrow> error + driver_state" where
  "emit_range r [] d = Inr d"
| "emit_range r (k # ks) d = bind_err (emit_at r k d) (emit_range r ks)"

text \<open>Lines 323--343.\<close>

definition report :: "tracker_out \<Rightarrow> driver_state \<Rightarrow> error + driver_state" where
  "report r d =
     (if length (out_idx_extrema r) \<ge> 2 * N - 1 then
        bind_err (if d_count d = 1 then emit_range r [0..<N] d else Inr d) (emit_at r N)
      else Inr d)"

text \<open>One pass through the body of the loop, lines 305--357.\<close>

definition find_extrema_step :: "library \<Rightarrow> tracker_args \<Rightarrow> driver_state \<Rightarrow> driver_step" where
  "find_extrema_step lib a d0 =
     (let d = d0\<lparr> d_count := d_count d0 + 1 \<rparr>
      in case FindExtremaNearIdxRef lib a (d_idx_ref d) (d_K d) (d_p d) of
           Inl e \<Rightarrow> Failed e
         | Inr (x, r) \<Rightarrow>
             let d1 = d\<lparr> d_p := out_p r, d_K := out_K r, d_idx_ref := out_idx_ref r \<rparr>
             in (case report r d1 of
                   Inl e \<Rightarrow> Failed e
                 | Inr d2 \<Rightarrow>
                     if length (out_idx_extrema r) < 2 * N + 1 then Finished d2
                     else
                       (case bind_err (py_index (out_idx_extrema r) (int N)) (\<lambda>e1.
                             bind_err (py_index (out_idx_extrema r) (int N + 1)) (\<lambda>e2.
                               Inr (midpoint e1 e2))) of
                          Inl e \<Rightarrow> Failed e
                        | Inr ref \<Rightarrow>
                            if d_count d > 1000 then Failed SafetyCap
                            else Again (d2\<lparr> d_idx_ref := ref \<rparr>))))"

lemma emit_at_count: "emit_at r k d = Inr d' \<Longrightarrow> d_count d' = d_count d"
  by (auto simp: emit_at_def bind_err_def split: prod.splits sum.splits)

lemma emit_range_count: "emit_range r ks d = Inr d' \<Longrightarrow> d_count d' = d_count d"
  by (induction ks arbitrary: d) (auto simp: bind_err_def split: sum.splits dest: emit_at_count)

lemma report_count: "report r d = Inr d' \<Longrightarrow> d_count d' = d_count d"
  by (auto simp: report_def bind_err_def split: if_splits sum.splits
           dest!: emit_at_count emit_range_count)

lemma find_extrema_step_Again_count:
  assumes "find_extrema_step lib a d = Again d'"
  shows "d_count d' = d_count d + 1 \<and> d_count d' \<le> 1000"
  using assms
  by (auto simp: find_extrema_step_def Let_def split: sum.splits prod.splits if_splits
           dest!: report_count)

function find_extrema_loop ::
  "library \<Rightarrow> tracker_args \<Rightarrow> driver_state \<Rightarrow> error + driver_state" where
  "find_extrema_loop lib a d =
     (case find_extrema_step lib a d of
        Failed e \<Rightarrow> Inl e
      | Finished d' \<Rightarrow> Inr d'
      | Again d' \<Rightarrow> find_extrema_loop lib a d')"
  by pat_completeness auto
termination
  by (relation "measure (\<lambda>(lib, a, d). 1001 - d_count d)")
     (auto dest!: find_extrema_step_Again_count)

declare find_extrema_loop.simps [simp del]



subsection \<open>Notions used in the statements\<close>

text \<open>What the tracker expects of \<^verbatim>\<open>scipy.signal.find_peaks\<close>: it returns the
  positions of local maxima in increasing order.\<close>

definition peaks_sorted :: "library \<Rightarrow> bool" where
  "peaks_sorted lib = (\<forall>x width prom. sorted (find_peaks lib x width prom))"



text \<open>The values of the three series at given indices, and the agreement in length of
  the three returned arrays with the list of indices.\<close>

definition grid_values :: "tracker_args \<Rightarrow> nat list \<Rightarrow> real list \<times> real list \<times> real list" where
  "grid_values a idx =
     (map (\<lambda>i. t_arr a ! i) idx, map (\<lambda>i. omega22 a ! i) idx, map (\<lambda>i. phase22 a ! i) idx)"

definition lengths_agree :: "nat list \<Rightarrow> real list \<times> real list \<times> real list \<Rightarrow> bool" where
  "lengths_agree idx ex =
     (length (fst ex) = length idx \<and> length (fst (snd ex)) = length idx
      \<and> length (snd (snd ex)) = length idx)"

text \<open>Lines 521 and 535--550 for the window and the trend parameters of a state:
  the residual \<^verbatim>\<open>omega22[idx_lo:idx_hi] - f_fit(t[idx_lo:idx_hi], *p)\<close> of line 521,
  the configuration (width, prominence) that lines 535--539 compute from it, and the call
  of \<^verbatim>\<open>find_peaks\<close> on it with a given configuration (lines 544--548), followed by
  the offset of line 550.\<close>

definition window_residual :: "tracker_args \<Rightarrow> tracker_state \<Rightarrow> error + real list" where
  "window_residual a s =
     bind_err (f_fit a (slice (idx_lo s) (idx_hi s) (t_arr a)) (p_cur s)) (\<lambda>trend.
       Inr (map2 (\<lambda>x y. x - y) (slice (idx_lo s) (idx_hi s) (omega22 a)) trend))"

definition fresh_config :: "tracker_args \<Rightarrow> tracker_state \<Rightarrow> error + int \<times> real" where
  "fresh_config a s =
     bind_err (window_residual a s)
       (peak_config (slice (idx_lo s) (idx_hi s) (t_arr a))
                    (slice (idx_lo s) (idx_hi s) (omega22 a)))"

definition detect_with ::
  "library \<Rightarrow> tracker_args \<Rightarrow> tracker_state \<Rightarrow> int \<times> real \<Rightarrow> error + nat list" where
  "detect_with lib a s cfg =
     bind_err (window_residual a s) (\<lambda>omega_residual.
       Inr (map (\<lambda>i. i + idx_lo s)
              (find_peaks lib (map (\<lambda>x. sign_arg a * x) omega_residual) (fst cfg) (snd cfg))))"

text \<open>What one pass of the driving loop (lines 323--343) appends to the list
  \<^verbatim>\<open>extrema\<close>, \<open>count\<close> being the value after line 305.\<close>

definition reported :: "nat \<Rightarrow> nat list \<Rightarrow> nat list" where
  "reported count idx_extrema =
     (if 2 * N - 1 \<le> length idx_extrema
      then (if count = 1 then take N idx_extrema else []) @ [idx_extrema ! N]
      else [])"

subsection \<open>Example inputs\<close>

text \<open>A peak detector that reports every strict local maximum, whatever the width and
  the prominence asked for, and a \<^verbatim>\<open>curve_fit\<close> that returns its initial guess.
  On the inputs below the width asked for is 0, and every local maximum stands out by far
  more than the prominence asked for.\<close>

fun local_maxima_from :: "nat \<Rightarrow> real list \<Rightarrow> nat list" where
  "local_maxima_from i (x # y # z # zs) =
     (if x < y \<and> z < y then [Suc i] else []) @ local_maxima_from (Suc i) (y # z # zs)"
| "local_maxima_from i zs = []"

definition plain_library :: library where
  "plain_library =
     \<lparr> find_peaks = (\<lambda>x width prominence. local_maxima_from 0 x),
       curve_fit = (\<lambda>f xdata ydata p0 b. Inr p0),
       parabola_fit = (\<lambda>x y. Inl LibraryError),
       cubic_fit_at = (\<lambda>x y x0. Inl LibraryError) \<rparr>"

text \<open>A \<^verbatim>\<open>curve_fit\<close> for the trend \<open>f0 + f1 * t\<close>, on which \<open>T\<close> has
  no influence: like the library routine it raises ValueError for an initial guess outside
  the bounds; it returns the least-squares line through the data, with \<open>T\<close> as in the
  initial guess, when this line lies within the bounds (it is then the solution of the
  bounded problem as well), and gives up otherwise.\<close>

definition within_bounds :: "params \<times> params \<Rightarrow> params \<Rightarrow> bool" where
  "within_bounds b p =
     (case (b, p) of (((l0, l1, l2), (u0, u1, u2)), (f0, f1, T)) \<Rightarrow>
        l0 \<le> f0 \<and> f0 \<le> u0 \<and> l1 \<le> f1 \<and> f1 \<le> u1 \<and> l2 \<le> T \<and> T \<le> u2)"

definition line_fit :: "real list \<Rightarrow> real list \<Rightarrow> params \<Rightarrow> params \<times> params \<Rightarrow> error + params" where
  "line_fit xdata ydata p0 b =
     (if \<not> within_bounds b p0 then Inl ValueError
      else
        let n = real (length xdata);
            Sx = sum_list xdata;
            Sy = sum_list ydata;
            Sxx = sum_list (map (\<lambda>x. x * x) xdata);
            Sxy = sum_list (map2 (\<lambda>x y. x * y) xdata ydata);
            D = n * Sxx - Sx * Sx
        in if D = 0 then Inl LibraryError
           else
             let f1 = (n * Sxy - Sx * Sy) / D;
                 f0 = (Sy - f1 * Sx) / n;
                 p = (f0, f1, snd (snd p0))
             in if within_bounds b p then Inr p else Inl LibraryError)"

definition line_library :: library where
  "line_library = plain_library\<lparr> curve_fit := (\<lambda>f xdata ydata p0 b. line_fit xdata ydata p0 b) \<rparr>"

text \<open>Two trend functions: constantly zero, and \<open>f0 + f1 * t\<close>.\<close>

definition zero_trend :: "real list \<Rightarrow> params \<Rightarrow> error + real list" where
  "zero_trend t p = Inr (map (\<lambda>x. 0) t)"

definition linear_trend :: "real list \<Rightarrow> params \<Rightarrow> error + real list" where
  "linear_trend t p = (case p of (f0, f1, T) \<Rightarrow> Inr (map (\<lambda>x. f0 + f1 * x) t))"

text \<open>Seven samples with local maxima of the frequency at indices 2 and 4.\<close>

definition two_peak_args :: "nat \<Rightarrow> tracker_args" where
  "two_peak_args na =
     \<lparr> t_arr = [0, 1, 2, 3, 4, 5, 6],
       phase22 = [0, 10, 20, 30, 40, 50, 60],
       omega22 = [0, 0, 4, 0, 4, 0, 0],
       sign_arg = 1, Nbefore = 1, Nafter = na,
       f_fit = zero_trend,
       bounds = ((0, 0, 0), (1, 1, 1)), TOL = 1 / 10 ^ 8,
       increase_idx_ref_if_needed = True, refine_extrema = False \<rparr>"

text \<open>Seven samples of a frequency that only grows.\<close>

definition monotone_args :: tracker_args where
  "monotone_args =
     \<lparr> t_arr = [0, 1, 2, 3, 4, 5, 6],
       phase22 = [0, 10, 20, 30, 40, 50, 60],
       omega22 = [1, 2, 3, 4, 5, 6, 7],
       sign_arg = 1, Nbefore = 3, Nafter = 4,
       f_fit = zero_trend,
       bounds = ((0, 0, 0), (1, 1, 1)), TOL = 1 / 10 ^ 8,
       increase_idx_ref_if_needed = True, refine_extrema = False \<rparr>"

text \<open>Seventeen samples with a local maximum at every odd index.\<close>

definition eight_peak_args :: tracker_args where
  "eight_peak_args =
     \<lparr> t_arr = [0, 1, 2, 3, 4, 5, 6, 7, 8, 9, 10, 11, 12, 13, 14, 15, 16],
       phase22 = [0, 6, 12, 18, 24, 30, 36, 42, 48, 54, 60, 66, 72, 78, 84, 90, 96],
       omega22 = [0, 4, 0, 4, 0, 4, 0, 4, 0, 4, 0, 4, 0, 4, 0, 4, 0],
       sign_arg = 1, Nbefore = 3, Nafter = 4,
       f_fit = zero_trend,
       bounds = ((0, 0, 0), (1, 1, 1)), TOL = 1 / 10 ^ 8,
       increase_idx_ref_if_needed = True, refine_extrema = False \<rparr>"

text \<open>The same with the frequency growing along the line \<open>4 + t / 10\<close> at the odd
  indices and along \<open>t / 10\<close> at the even ones, and a linear trend.\<close>

definition sloping_args :: tracker_args where
  "sloping_args =
     \<lparr> t_arr = [0, 1, 2, 3, 4, 5, 6, 7, 8, 9, 10, 11, 12, 13, 14, 15, 16],
       phase22 = [0, 6, 12, 18, 24, 30, 36, 42, 48, 54, 60, 66, 72, 78, 84, 90, 96],
       omega22 = [0, 41 / 10, 2 / 10, 43 / 10, 4 / 10, 45 / 10, 6 / 10, 47 / 10, 8 / 10,
                  49 / 10, 1, 51 / 10, 12 / 10, 53 / 10, 14 / 10, 55 / 10, 16 / 10],
       sign_arg = 1, Nbefore = 3, Nafter = 4,
       f_fit = linear_trend,
       bounds = ((0, 0, 0), (10, 1, 1)), TOL = 1 / 10 ^ 8,
       increase_idx_ref_if_needed = True, refine_extrema = False \<rparr>"

text \<open>Fifteen samples with local maxima at the odd indices up to 9 and none after them,
  where the phase grows by 8 from sample to sample.\<close>

definition slow_tail_args :: tracker_args where
  "slow_tail_args =
     \<lparr> t_arr = [0, 1, 2, 3, 4, 5, 6, 7, 8, 9, 10, 11, 12, 13, 14],
       phase22 = [0, 6, 12, 18, 24, 30, 36, 42, 48, 54, 60, 74, 82, 90, 98],
       omega22 = [0, 4, 0, 4, 0, 4, 0, 4, 0, 4, 0, 1, 2, 3, 4],
       sign_arg = 1, Nbefore = 3, Nafter = 3,
       f_fit = zero_trend,
       bounds = ((0, 0, 0), (1, 1, 1)), TOL = 1 / 10 ^ 8,
       increase_idx_ref_if_needed = True, refine_extrema = False \<rparr>"

text \<open>Twenty-nine samples with one local maximum (index 2) before the reference index 3
  and the next two only at indices 24 and 26, where the phase grows slowly.\<close>

definition late_pair_args :: tracker_args where
  "late_pair_args =
     \<lparr> t_arr = [0, 1, 2, 3, 4, 5, 6, 7, 8, 9, 10, 11, 12, 13, 14, 15, 16, 17, 18, 19,
                20, 21, 22, 23, 24, 25, 26, 27, 28],
       phase22 = [- 1000, 0, 10, 20, 30, 40, 50, 60, 70, 80, 90, 100, 110, 120, 130, 140,
                  150, 160, 170, 180, 190, 200, 210, 220, 230, 232, 234, 236, 240],
       omega22 = [2, 2, 6, 4, 6, 8, 10, 12, 14, 16, 18, 20, 22, 24, 26, 28, 30, 32, 34, 36,
                  38, 40, 42, 44, 48, 46, 50, 48, 52],
       sign_arg = 1, Nbefore = 2, Nafter = 1,
       f_fit = zero_trend,
       bounds = ((0, 0, 0), (1, 1, 1)), TOL = 1 / 10 ^ 8,
       increase_idx_ref_if_needed = True, refine_extrema = False \<rparr>"

text \<open>The states in which \<^verbatim>\<open>FindExtremaNearIdxRef\<close> enters its loop on these
  inputs (lines 483--516).\<close>

definition two_peak_start :: tracker_state where
  "two_peak_start =
     \<lparr>idx_lo = 1, idx_hi = 6, idx_ref = 3, p_cur = (0, 0, 0), K_cur = 2, it = 0,
      old_extrema = [0, 0], old_idx = (- 1, - 1), Count_Nright_short = 0, prominence = None\<rparr>"

definition advance_start :: tracker_state where
  "advance_start =
     \<lparr>idx_lo = 0, idx_hi = 7, idx_ref = 1, p_cur = (0, 0, 0), K_cur = 3, it = 0,
      old_extrema = [0, 0, 0], old_idx = (- 1, - 1), Count_Nright_short = 0, prominence = None\<rparr>"

definition eight_peak_start :: tracker_state where
  "eight_peak_start =
     \<lparr>idx_lo = 2, idx_hi = 17, idx_ref = 8, p_cur = (0, 0, 0), K_cur = 1, it = 0,
      old_extrema = [0, 0, 0, 0, 0, 0, 0], old_idx = (- 1, - 1), Count_Nright_short = 0,
      prominence = None\<rparr>"

definition monotone_start :: tracker_state where
  "monotone_start =
     \<lparr>idx_lo = 0, idx_hi = 7, idx_ref = 3, p_cur = (0, 0, 0), K_cur = 1, it = 0,
      old_extrema = [0, 0, 0, 0, 0, 0, 0], old_idx = (- 1, - 1), Count_Nright_short = 0,
      prominence = None\<rparr>"

definition late_pair_start :: tracker_state where
  "late_pair_start =
     \<lparr>idx_lo = 1, idx_hi = 5, idx_ref = 3, p_cur = (0, 0, 0), K_cur = 1, it = 0,
      old_extrema = [0, 0, 0], old_idx = (- 1, - 1), Count_Nright_short = 0, prominence = None\<rparr>"

text \<open>The run on \<open>sloping_args\<close> with the initial guess \<open>(2, 1/20, 1/2)\<close>: the
  state at the entry of the loop and the state after the first pass, which ends with a
  refit.\<close>

definition sloping_start :: tracker_state where
  "sloping_start =
     \<lparr>idx_lo = 2, idx_hi = 17, idx_ref = 8, p_cur = (2, 1 / 20, 1 / 2), K_cur = 1, it = 0,
      old_extrema = [0, 0, 0, 0, 0, 0, 0], old_idx = (- 1, - 1), Count_Nright_short = 0,
      prominence = None\<rparr>"

definition sloping_refitted :: tracker_state where
  "sloping_refitted =
     \<lparr>idx_lo = 2, idx_hi = 17, idx_ref = 8, p_cur = (4, 1 / 10, 1 / 2),
      K_cur = 72 / (4 * np_pi * 6), it = 1,
      old_extrema = [43 / 10, 9 / 2, 47 / 10, 49 / 10, 51 / 10, 53 / 10, 11 / 2],
      old_idx = (- 1, - 1), Count_Nright_short = 0, prominence = None\<rparr>"

text \<open>The run on \<open>slow_tail_args\<close>: the state at the entry of the loop and the state
  after \<open>i\<close> iterations, the window reaching up to index \<open>h\<close>.\<close>

definition slow_tail_start :: tracker_state where
  "slow_tail_start =
     \<lparr>idx_lo = 0, idx_hi = 11, idx_ref = 6, p_cur = (0, 0, 0), K_cur = 1, it = 0,
      old_extrema = [0, 0, 0, 0, 0, 0], old_idx = (- 1, - 1), Count_Nright_short = 0,
      prominence = None\<rparr>"

definition slow_tail_state :: "nat \<Rightarrow> nat \<Rightarrow> tracker_state" where
  "slow_tail_state h i =
     \<lparr>idx_lo = 0, idx_hi = h, idx_ref = 6, p_cur = (0, 0, 0), K_cur = 48 / (4 * np_pi * 4),
      it = i, old_extrema = [0, 0, 0, 0, 0, 0], old_idx = (0, int h), Count_Nright_short = i,
      prominence = Some (0, 3 / 25)\<rparr>"

text \<open>The state of the run on \<open>late_pair_args\<close> after \<open>i\<close> iterations, the window
  reaching up to index \<open>h\<close>.\<close>

definition late_pair_state :: "nat \<Rightarrow> nat \<Rightarrow> tracker_state" where
  "late_pair_state h i =
     \<lparr>idx_lo = 1, idx_hi = h, idx_ref = 3, p_cur = (0, 0, 0), K_cur = 1, it = i,
      old_extrema = [0, 0, 0], old_idx = (1, int h), Count_Nright_short = i,
      prominence = Some (0, 3 / 25)\<rparr>"

section \<open>Properties\<close>

subsection \<open>Helper facts about the numpy functions\<close>

lemma list_max_Max: "xs \<noteq> [] \<Longrightarrow> list_max xs = Max (set xs)"
  by (cases xs) (auto simp: list_max_def simp flip: Max.set_eq_fold)

lemma list_max_gt_iff: "xs \<noteq> [] \<Longrightarrow> list_max xs > T \<longleftrightarrow> list_ex (\<lambda>x. x > T) xs"
  by (simp add: list_max_Max list_ex_iff Max_gr_iff)

lemma takeWhile_not_less:
  "list_ex (\<lambda>b. b) bs \<Longrightarrow> length (takeWhile (\<lambda>b. \<not> b) bs) < length bs"
  by (induction bs) auto

lemma np_argmax_less: "bs \<noteq> [] \<Longrightarrow> np_argmax bs < length bs"
proof -
  assume ne: "bs \<noteq> []"
  show ?thesis
  proof (cases "list_ex (\<lambda>b. b) bs")
    case True
    then show ?thesis by (simp add: np_argmax_def takeWhile_not_less)
  next
    case False
    with ne show ?thesis by (simp add: np_argmax_def)
  qed
qed

subsection \<open>The polarity aliases\<close>



subsection \<open>The trend model's guard\<close>

text \<open>The guard of \<^verbatim>\<open>__call__\<close> fires exactly when some evaluation time is strictly
  greater than \<open>T\<close>.  When every evaluation time is smaller than \<open>T\<close>, with
  \<open>f0 \<noteq> 0\<close> and \<open>t0 < T\<close>, the value is \<open>A * (T - t) ^ n\<close> with
  \<open>n = - (T - t0) * f1 / f0\<close> and \<open>A = f0 * (T - t0) ^ (- n)\<close>.  At \<open>t = T\<close>
  with a negative exponent the value is an infinity.\<close>

lemma envelope_raises_iff:
  "envelope_fitting_function t0 t (f0, f1, T) = Inl DivergenceViolation
     \<longleftrightarrow> list_ex (\<lambda>x. x > T) t"
  by (cases "t = []") (simp_all add: envelope_fitting_function_def Let_def list_max_gt_iff)

lemma np_power_positive: "0 < b \<Longrightarrow> np_power b (Finite e) = Finite (b powr e)"
  by simp

lemma envelope_value:
  assumes "t \<noteq> []" "list_all (\<lambda>x. x < T) t" "f0 \<noteq> 0" "t0 < T"
  shows "envelope_fitting_function t0 t (f0, f1, T) =
     Inr (map (\<lambda>x. Finite (f0 * (T - t0) powr (- (- (T - t0) * f1 / f0))
                             * (T - x) powr (- (T - t0) * f1 / f0))) t)"
proof -
  from assms(1,2) have "\<not> list_max t > T"
    by (auto simp: list_max_gt_iff list_ex_iff list_all_iff)
  moreover have "envelope_n t0 f0 f1 T = Finite (- (T - t0) * f1 / f0)"
    using assms(3) by (simp add: envelope_n_def np_divide_def)
  moreover have "envelope_A t0 f0 f1 T = Finite (f0 * (T - t0) powr (- (- (T - t0) * f1 / f0)))"
    using assms(3,4)
    by (simp add: envelope_A_def envelope_n_def np_divide_def np_power_positive
          del: np_power.simps)
  moreover have "\<forall>x \<in> set t. 0 < T - x"
    using assms(2) by (auto simp: list_all_iff)
  ultimately show ?thesis
    using assms(1)
    by (simp add: envelope_fitting_function_def np_power_positive del: np_power.simps)
qed

lemma envelope_value_at_pole:
  "envelope_fitting_function 0 [1] (1, 1, 1) = Inr [PosInf]"
  by (simp add: envelope_fitting_function_def envelope_n_def envelope_A_def np_divide_def
        signed_inf_def list_max_def)

text \<open>
  Claim C3.  The claim asks for a failure whenever some evaluation time \<open>t\<close> has
  \<open>t \<ge> T\<close>.  With \<open>t0 = 0\<close>, the single sample \<open>t = 1\<close> and \<open>(f0, f1, T) = (1, 1, 1)\<close>
  the largest evaluation time equals \<open>T\<close>, and the call does not fail: the guard compares
  with \<open>>\<close>, so the trend is evaluated at its own pole, where its value is an infinity.
\<close>

theorem envelope_no_failure_at_T:
  "list_max [1] \<ge> (1::real) \<and> \<not> isl (envelope_fitting_function 0 [1] (1, 1, 1))"
  by (simp add: envelope_fitting_function_def list_max_def)

subsection \<open>The bounds of the global fit\<close>

lemma global_fit_times_take:
  assumes "length (phase22_analyse w) = length (t_analyse w)" "t_analyse w \<noteq> []"
  shows "\<exists>k < length (t_analyse w). global_fit_times w = take k (t_analyse w)"
proof -
  let ?n = "length (t_analyse w)"
  let ?a = "argmax_gt (phase22_analyse w) (hd (phase22_analyse w) + 10 * 4 * np_pi)"
  from assms have pne: "phase22_analyse w \<noteq> []" by auto
  have "?a < ?n"
    using np_argmax_less [of "map (\<lambda>x. x > hd (phase22_analyse w) + 10 * 4 * np_pi) (phase22_analyse w)"]
      pne assms(1)
    by (simp add: argmax_gt_def)
  show ?thesis
  proof (cases "?a = 0")
    case True
    then have "global_fit_times w = take (?n - 1) (t_analyse w)"
      by (simp add: global_fit_times_def global_idx_end_def slice_to_def Let_def nat_diff_distrib')
    with assms show ?thesis by (intro exI [of _ "?n - 1"]) simp
  next
    case False
    then have "global_fit_times w = take ?a (t_analyse w)"
      by (simp add: global_fit_times_def global_idx_end_def slice_to_def Let_def)
    with \<open>?a < ?n\<close> show ?thesis by blast
  qed
qed

text \<open>
  Claim C7, as stated, fails for data that end after the time origin: with times
  \<open>[-100, 9, 10]\<close> the fitted samples are \<open>[-100, 9]\<close>, the bounds on \<open>T\<close> are
  \<open>[8, 45]\<close>, and \<open>T = 8.5\<close> is admitted although it is smaller than the sample \<open>9\<close>.
\<close>

theorem global_bounds_counterexample:
  "T_admitted (bounds0 \<lparr>t_analyse = [-100, 9, 10], phase22_analyse = [0, 1, 2],
                         omega22_analyse = [1, 1, 1]\<rparr> 1) 8.5
   \<and> 9 \<in> set (global_fit_times \<lparr>t_analyse = [-100, 9, 10], phase22_analyse = [0, 1, 2],
                         omega22_analyse = [1, 1, 1]\<rparr>)
   \<and> \<not> (9::real) < 8.5"
  by (simp add: T_admitted_def bounds0_def fit_center_time_def global_fit_times_def
        global_idx_end_def argmax_gt_def np_argmax_def np_pi_def slice_to_def)

text \<open>
  Claim C7, amended.  When the time samples are strictly increasing and the last one is
  not positive (the data end at or before the time origin, where the waveform is aligned),
  every value of \<open>T\<close> admitted by the bounds of the global fit is strictly greater
  than every time sample handed to the fit.
\<close>

theorem global_bounds_T_beyond_data:
  assumes inc: "sorted_wrt (<) (t_analyse w)"
    and len: "length (phase22_analyse w) = length (t_analyse w)"
    and ne: "t_analyse w \<noteq> []"
    and neg: "last (t_analyse w) \<le> 0"
    and adm: "T_admitted (bounds0 w f0) T"
    and s: "s \<in> set (global_fit_times w)"
  shows "s < T"
proof -
  let ?t = "t_analyse w"
  from global_fit_times_take [OF len ne] obtain k
    where k: "k < length ?t" "global_fit_times w = take k ?t" by blast
  from s k obtain i where i: "i < k" "s = ?t ! i"
    by (auto simp: in_set_conv_nth)
  have "?t ! i < ?t ! (length ?t - 1)"
    using sorted_wrt_nth_less [OF inc, of i "length ?t - 1"] i k by simp
  then have "s < last ?t"
    using ne i by (simp add: last_conv_nth)
  moreover have "last ?t \<le> 0.8 * last ?t" using neg by simp
  moreover have "0.8 * last ?t \<le> T"
    using adm by (simp add: T_admitted_def bounds0_def)
  ultimately show ?thesis by linarith
qed

theorem global_bounds_T_beyond_data_witness:
  "T_admitted (bounds0 \<lparr>t_analyse = [-10, -5, -1], phase22_analyse = [0, 1, 2],
                         omega22_analyse = [1, 1, 1]\<rparr> 1) 0
   \<and> -5 \<in> set (global_fit_times \<lparr>t_analyse = [-10, -5, -1], phase22_analyse = [0, 1, 2],
                         omega22_analyse = [1, 1, 1]\<rparr>)
   \<and> (-5::real) < 0"
  using global_bounds_T_beyond_data [of "\<lparr>t_analyse = [-10, -5, -1], phase22_analyse = [0, 1, 2],
                         omega22_analyse = [1, 1, 1]\<rparr>" 1 0 "-5"]
  by (simp add: T_admitted_def bounds0_def fit_center_time_def global_fit_times_def
        global_idx_end_def argmax_gt_def np_argmax_def np_pi_def slice_to_def)

subsection \<open>Facts about the tracker\<close>


lemma py_index_nat: "py_index xs (int k) = Inr v \<longleftrightarrow> k < length xs \<and> v = xs ! k"
  by (auto simp: py_index_def)

lemma py_index_nat_Suc: "py_index xs (int k + 1) = Inr v \<longleftrightarrow> Suc k < length xs \<and> v = xs ! Suc k"
  using py_index_nat [of xs "Suc k" v] by (simp add: add.commute)

lemma np_argmax_first:
  assumes "list_ex P xs"
  shows "np_argmax (map P xs) < length xs \<and> P (xs ! np_argmax (map P xs))"
proof -
  let ?n = "length (takeWhile (\<lambda>x. \<not> P x) xs)"
  from assms have ex: "list_ex (\<lambda>b. b) (map P xs)" by (simp add: list_ex_iff)
  have eq: "np_argmax (map P xs) = ?n"
    using ex by (simp add: np_argmax_def takeWhile_map comp_def)
  have lt: "?n < length xs"
    using takeWhile_not_less [OF ex] by (simp add: takeWhile_map comp_def)
  from nth_length_takeWhile [OF lt] have "P (xs ! ?n)" by simp
  with eq lt show ?thesis by simp
qed

lemma midpoint_ge: "r \<le> a \<Longrightarrow> r \<le> b \<Longrightarrow> r \<le> midpoint a b"
  by (simp add: midpoint_def)




lemma Nright_ex: "Nright_of idx ref \<ge> 1 \<Longrightarrow> list_ex (\<lambda>i. ref \<le> i) idx"
  by (auto simp: Nright_of_def list_ex_iff filter_empty_conv
      dest!: length_pos_if_in_set [THEN less_imp_neq] intro: ccontr)



lemma gap_sorted: "sorted_wrt (\<lambda>i j. i + 2 \<le> j) (idx :: nat list) \<Longrightarrow> sorted idx"
  by (rule sorted_wrt_mono_rel [of _ "\<lambda>i j. i + 2 \<le> j"]) auto



text \<open>The reference index through one adjustment, one iteration and the loop.\<close>

lemma adjust_left_ref_ge:
  assumes "sorted idx" "adjust_left a idx (Nleft_of idx ref) (Nright_of idx ref) K lo ref = Inr (lo', ref', nr)"
  shows "ref \<le> ref' \<and> (\<not> increase_idx_ref_if_needed a \<longrightarrow> ref' = ref)"
proof (cases "Nleft_of idx ref < Nbefore a \<and> lo = 0 \<and> increase_idx_ref_if_needed a \<and> Nright_of idx ref \<ge> 2")
  case True
  let ?tmp = "np_argmax (map (\<lambda>i. ref \<le> i) idx)"
  from True have "list_ex (\<lambda>i. ref \<le> i) idx" by (intro Nright_ex) simp
  from np_argmax_first [OF this] have tmp: "?tmp < length idx" "ref \<le> idx ! ?tmp" by auto
  from True assms(2) have e: "Suc ?tmp < length idx" "ref' = midpoint (idx ! ?tmp) (idx ! Suc ?tmp)"
    by (auto simp: adjust_left_def bind_err_def Let_def py_index_nat py_index_nat_Suc
             split: sum.splits)
  have "idx ! ?tmp \<le> idx ! Suc ?tmp"
    using assms(1) e(1) by (simp add: sorted_nth_mono)
  with tmp e True show ?thesis by (simp add: midpoint_ge)
next
  case False
  with assms(2) show ?thesis
    by (auto simp: adjust_left_def bind_err_def Let_def split: sum.splits if_splits)
qed

lemma adjust_window_ref_ge:
  assumes "sorted idx" "adjust_window a idx K s = Inr (lo, hi, ref)"
  shows "idx_ref s \<le> ref \<and> (\<not> increase_idx_ref_if_needed a \<longrightarrow> ref = idx_ref s)"
  using assms
  by (auto simp: adjust_window_def bind_err_def Let_def split: if_splits sum.splits prod.splits
           dest: adjust_left_ref_ge)

lemma find_window_extrema_sorted:
  assumes "peaks_sorted lib" "find_window_extrema lib a s = Inr ob"
  shows "sorted (ob_idx_extrema ob)"
proof -
  from assms(2) obtain x w pr where
    "ob_idx_extrema ob = map (\<lambda>i. i + idx_lo s) (find_peaks lib x w pr)"
    by (auto simp: find_window_extrema_def bind_err_def Let_def split: sum.splits)
  moreover have "sorted (find_peaks lib x w pr)"
    using assms(1) by (simp add: peaks_sorted_def)
  ultimately show ?thesis
    by (simp add: sorted_map sorted_wrt_mono_rel [of _ "(\<le>)"])
qed

lemma survey_window_ref_ge:
  assumes "peaks_sorted lib" "survey_window lib a s = Inr sv"
  shows "case sv of NoneOrCap r \<Rightarrow> out_idx_ref r = idx_ref s
         | Found f \<Rightarrow> idx_ref s \<le> idx_ref (sv_state f)
             \<and> (\<not> increase_idx_ref_if_needed a \<longrightarrow> idx_ref (sv_state f) = idx_ref s)"
proof -
  let ?s = "s\<lparr>it := it s + 1\<rparr>"
  from assms(2) obtain ob where ob: "find_window_extrema lib a ?s = Inr ob"
    by (auto simp: survey_window_def bind_err_def Let_def split: sum.splits)
  from find_window_extrema_sorted [OF assms(1) ob] have srt: "sorted (ob_idx_extrema ob)" .
  show ?thesis
    using assms(2) ob adjust_window_ref_ge [OF srt, of a _ ?s]
    by (auto simp: survey_window_def bind_err_def Let_def
             split: sum.splits if_splits prod.splits surveyed.splits)
qed

lemma settle_ref:
  "settle lib a s idx ex = Next s' \<Longrightarrow> idx_ref s' = idx_ref s"
  "settle lib a s idx ex = Returned x r \<Longrightarrow> out_idx_ref r = idx_ref s"
  by (auto simp: settle_def Let_def split: if_splits sum.splits)

lemma tracker_iteration_ref_ge:
  assumes "peaks_sorted lib"
  shows "tracker_iteration lib a s = Next s' \<Longrightarrow>
           idx_ref s \<le> idx_ref s' \<and> (\<not> increase_idx_ref_if_needed a \<longrightarrow> idx_ref s' = idx_ref s)"
    and "tracker_iteration lib a s = Returned x r \<Longrightarrow>
           idx_ref s \<le> out_idx_ref r \<and> (\<not> increase_idx_ref_if_needed a \<longrightarrow> out_idx_ref r = idx_ref s)"
  using survey_window_ref_ge [OF assms, of a s]
  by (auto simp: tracker_iteration_def Let_def
           split: sum.splits surveyed.splits if_splits dest!: settle_ref)

lemma tracker_loop_ref_ge:
  "peaks_sorted lib \<Longrightarrow> tracker_loop lib a s = Inr (x, r) \<Longrightarrow>
     idx_ref s \<le> out_idx_ref r \<and> (\<not> increase_idx_ref_if_needed a \<longrightarrow> out_idx_ref r = idx_ref s)"
proof (induction lib a s rule: tracker_loop.induct)
  case (1 lib a s)
  note ps = "1.prems"(1) and run = "1.prems"(2)
  show ?case
  proof (cases "tracker_iteration lib a s")
    case (Returned x' r')
    with run have "r' = r" by (simp add: tracker_loop.simps)
    with Returned tracker_iteration_ref_ge(2) [OF ps] show ?thesis by blast
  next
    case (Next s')
    with run have "tracker_loop lib a s' = Inr (x, r)" by (simp add: tracker_loop.simps)
    with "1.IH" [OF Next ps]
    have "idx_ref s' \<le> out_idx_ref r
          \<and> (\<not> increase_idx_ref_if_needed a \<longrightarrow> out_idx_ref r = idx_ref s')" .
    with tracker_iteration_ref_ge(1) [OF ps Next] show ?thesis by auto
  next
    case (Raised e)
    with run show ?thesis by (simp add: tracker_loop.simps)
  qed
qed








lemma settle_Returned:
  "settle lib a s idx ex = Returned x r \<Longrightarrow>
     out_idx_extrema r = idx \<and> out_idx_ref r = idx_ref s \<and> out_extrema_refined r = ex
     \<and> x \<noteq> EarlyExit"
  by (auto simp: settle_def Let_def split: if_splits sum.splits)






text \<open>The three returned arrays.\<close>

lemma find_window_extrema_grid:
  assumes "find_window_extrema lib a s = Inr ob"
  shows "(ob_t_extrema ob, ob_omega22_extrema ob, ob_phase22_extrema ob)
           = grid_values a (ob_idx_extrema ob)"
  using assms
  by (auto simp: find_window_extrema_def bind_err_def Let_def gather_def grid_values_def
           split: sum.splits if_splits)

lemma refine_one_lengths:
  "refine_one lib a p k ex = Inr ex' \<Longrightarrow> lengths_agree idx ex \<Longrightarrow> lengths_agree idx ex'"
  by (auto simp: refine_one_def bind_err_def Let_def lengths_agree_def
           split: prod.splits sum.splits if_splits)

lemma refine_all_lengths:
  "refine_all lib a p ks ex = Inr ex' \<Longrightarrow> lengths_agree idx ex \<Longrightarrow> lengths_agree idx ex'"
proof (induction ks arbitrary: ex)
  case Nil
  then show ?case by simp
next
  case (Cons k ks)
  from Cons.prems(1) obtain ex1 where 1: "refine_one lib a p k ex = Inr ex1"
    and 2: "refine_all lib a p ks ex1 = Inr ex'"
    by (auto simp: bind_err_def split: sum.splits)
  from Cons.IH [OF 2 refine_one_lengths [OF 1 Cons.prems(2)]] show ?case .
qed

lemma grid_lengths: "lengths_agree idx (grid_values a idx)"
  by (simp add: lengths_agree_def grid_values_def)

lemma survey_window_extrema:
  assumes "survey_window lib a s = Inr sv"
  shows "case sv of
           NoneOrCap r \<Rightarrow> out_extrema_refined r = grid_values a (out_idx_extrema r)
         | Found f \<Rightarrow> lengths_agree (sv_idx_extrema f) (sv_extrema f)
                      \<and> (\<not> refine_extrema a \<longrightarrow> sv_extrema f = grid_values a (sv_idx_extrema f))"
proof -
  let ?s = "s\<lparr>it := it s + 1\<rparr>"
  from assms obtain ob where ob: "find_window_extrema lib a ?s = Inr ob"
    by (auto simp: survey_window_def bind_err_def Let_def split: sum.splits)
  let ?idx = "ob_idx_extrema ob"
  have g: "(ob_t_extrema ob, ob_omega22_extrema ob, ob_phase22_extrema ob) = grid_values a ?idx"
    by (rule find_window_extrema_grid [OF ob])
  show ?thesis
  proof (cases sv)
    case (NoneOrCap r)
    with assms ob g show ?thesis
      by (auto simp: survey_window_def bind_err_def Let_def split: sum.splits if_splits prod.splits)
  next
    case (Found f)
    with assms ob g obtain ex where
      ex: "(if refine_extrema a then refine_all lib a (p_cur ?s) [0..<length ?idx] (grid_values a ?idx)
            else Inr (grid_values a ?idx)) = Inr ex"
      and f: "sv_idx_extrema f = ?idx" "sv_extrema f = ex"
      by (auto simp: survey_window_def bind_err_def Let_def split: sum.splits if_splits prod.splits)
    have "lengths_agree ?idx ex"
    proof (cases "refine_extrema a")
      case True
      with ex have "refine_all lib a (p_cur ?s) [0..<length ?idx] (grid_values a ?idx) = Inr ex"
        by simp
      from refine_all_lengths [OF this grid_lengths] show ?thesis .
    next
      case False
      with ex show ?thesis by (auto simp: grid_lengths)
    qed
    moreover have "\<not> refine_extrema a \<longrightarrow> ex = grid_values a ?idx"
      using ex by auto
    ultimately show ?thesis using Found f by simp
  qed
qed

lemma tracker_iteration_extrema:
  assumes "tracker_iteration lib a s = Returned x r"
  shows "lengths_agree (out_idx_extrema r) (out_extrema_refined r)
         \<and> (\<not> refine_extrema a \<longrightarrow> out_extrema_refined r = grid_values a (out_idx_extrema r))"
  using assms survey_window_extrema [of lib a s]
  by (auto simp: tracker_iteration_def Let_def grid_lengths
           split: sum.splits surveyed.splits if_splits dest!: settle_Returned)

lemma tracker_loop_extrema:
  "tracker_loop lib a s = Inr (x, r) \<Longrightarrow>
     lengths_agree (out_idx_extrema r) (out_extrema_refined r)
     \<and> (\<not> refine_extrema a \<longrightarrow> out_extrema_refined r = grid_values a (out_idx_extrema r))"
proof (induction lib a s rule: tracker_loop.induct)
  case (1 lib a s)
  show ?case
  proof (cases "tracker_iteration lib a s")
    case (Returned x' r')
    with "1.prems" have "r' = r" by (simp add: tracker_loop.simps)
    with Returned tracker_iteration_extrema show ?thesis by blast
  next
    case (Next s')
    with "1.prems" have "tracker_loop lib a s' = Inr (x, r)" by (simp add: tracker_loop.simps)
    with "1.IH" [OF Next] show ?thesis by blast
  next
    case (Raised e)
    with "1.prems" show ?thesis by (simp add: tracker_loop.simps)
  qed
qed

lemma FindExtremaNearIdxRef_extrema:
  assumes "FindExtremaNearIdxRef lib a ref K p_initial = Inr (x, r)"
  shows "lengths_agree (out_idx_extrema r) (out_extrema_refined r)
         \<and> (\<not> refine_extrema a \<longrightarrow> out_extrema_refined r = grid_values a (out_idx_extrema r))"
proof -
  from assms obtain s where "tracker_loop lib a s = Inr (x, r)"
    by (auto simp: FindExtremaNearIdxRef_def bind_err_def split: sum.splits)
  then show ?thesis by (rule tracker_loop_extrema)
qed



lemma settle_shortfall_iff:
  "it s \<le> 20 \<Longrightarrow>
   (\<exists>r. settle lib a s idx ex = Returned ShortfallExit r)
     \<longleftrightarrow> (5 \<le> Count_Nright_short s \<or> length idx < 5)"
  by (auto simp: settle_def Let_def shortfall_def split: sum.splits)

lemma survey_window_cfg:
  assumes "survey_window lib a s = Inr (Found sv)"
  obtains ob where "find_window_extrema lib a (s\<lparr>it := it s + 1\<rparr>) = Inr ob"
    "prominence (sv_state sv) = Some (ob_cfg ob)" "p_cur (sv_state sv) = p_cur s"
  using assms
  by (auto simp: survey_window_def bind_err_def Let_def
           split: sum.splits if_splits prod.splits)

lemma window_residual_it [simp]: "window_residual a (s\<lparr>it := k\<rparr>) = window_residual a s"
  by (simp add: window_residual_def)

lemma detect_with_it [simp]: "detect_with lib a (s\<lparr>it := k\<rparr>) cfg = detect_with lib a s cfg"
  by (simp add: detect_with_def)

lemma find_window_extrema_detect:
  assumes "find_window_extrema lib a s = Inr ob"
  shows "detect_with lib a s (ob_cfg ob) = Inr (ob_idx_extrema ob)"
    and "prominence s = None \<Longrightarrow> fresh_config a s = Inr (ob_cfg ob)"
    and "prominence s = Some c \<Longrightarrow> ob_cfg ob = c"
  using assms
  by (auto simp: find_window_extrema_def detect_with_def fresh_config_def window_residual_def
        bind_err_def Let_def split: sum.splits)

lemma fresh_config_rule:
  assumes "fresh_config a s = Inr cfg"
  shows "\<exists>omega_residual. window_residual a s = Inr omega_residual
           \<and> fst cfg = py_int (0.5 * 2 * np_pi / list_max (slice (idx_lo s) (idx_hi s) (omega22 a))
                                / list_max (np_diff (slice (idx_lo s) (idx_hi s) (t_arr a))))
           \<and> snd cfg = (list_max omega_residual - list_min omega_residual) * 0.03"
  using assms
  by (auto simp: fresh_config_def peak_config_def bind_err_def Let_def split: sum.splits if_splits)

lemma initial_state_flag: "initial_state a ref K p_initial = Inr s \<Longrightarrow> prominence s = None"
  by (auto simp: initial_state_def bind_err_def Let_def split: sum.splits)

lemma settle_Next_refit:
  "settle lib a s idx ex = Next s' \<Longrightarrow>
     prominence s' = None
     \<and> curve_fit lib (f_fit a) (fst ex) (fst (snd ex)) (p_cur s) (bounds a) = Inr (p_cur s')"
  by (auto simp: settle_def Let_def split: if_splits sum.splits)

lemma tracker_iteration_hands_on:
  assumes "tracker_iteration lib a s = Next s'"
  shows "\<exists>ob sv. find_window_extrema lib a (s\<lparr>it := it s + 1\<rparr>) = Inr ob
           \<and> survey_window lib a s = Inr (Found sv)
           \<and> (if sv_mismatch sv
                   \<and> window_changed (sv_state sv) (idx_lo (sv_state sv)) (idx_hi (sv_state sv))
               then prominence s' = Some (ob_cfg ob) \<and> p_cur s' = p_cur s
               else prominence s' = None
                    \<and> curve_fit lib (f_fit a) (fst (sv_extrema sv)) (fst (snd (sv_extrema sv)))
                         (p_cur s) (bounds a) = Inr (p_cur s'))"
proof -
  from assms obtain sv where sv: "survey_window lib a s = Inr (Found sv)"
    by (auto simp: tracker_iteration_def split: sum.splits surveyed.splits)
  from sv obtain ob where ob: "find_window_extrema lib a (s\<lparr>it := it s + 1\<rparr>) = Inr ob"
    and cfg: "prominence (sv_state sv) = Some (ob_cfg ob)" and p: "p_cur (sv_state sv) = p_cur s"
    by (rule survey_window_cfg)
  show ?thesis
  proof (cases "sv_mismatch sv
                 \<and> window_changed (sv_state sv) (idx_lo (sv_state sv)) (idx_hi (sv_state sv))")
    case True
    with assms sv have "s' = (sv_state sv)\<lparr>old_idx := (int (idx_lo (sv_state sv)),
                                                      int (idx_hi (sv_state sv)))\<rparr>"
      by (auto simp: tracker_iteration_def Let_def)
    with cfg p True ob sv show ?thesis by auto
  next
    case False
    with assms sv have "settle lib a (sv_state sv) (sv_idx_extrema sv) (sv_extrema sv) = Next s'"
      by (auto simp: tracker_iteration_def Let_def)
    from settle_Next_refit [OF this] p False ob sv show ?thesis by auto
  qed
qed

lemma counter_exit:
  assumes sv: "survey_window lib a s = Inr (Found sv)"
    and stands: "\<not> (sv_mismatch sv
             \<and> window_changed (sv_state sv) (idx_lo (sv_state sv)) (idx_hi (sv_state sv)))"
    and cnt: "5 \<le> Count_Nright_short (sv_state sv)"
  shows "\<exists>r. tracker_iteration lib a s = Returned ShortfallExit r"
proof -
  from survey_window_Found_it [OF sv] have "it (sv_state sv) \<le> 20" by simp
  from settle_shortfall_iff [OF this, of lib a "sv_idx_extrema sv" "sv_extrema sv"] cnt
  have "\<exists>r. settle lib a (sv_state sv) (sv_idx_extrema sv) (sv_extrema sv)
                = Returned ShortfallExit r" by simp
  with sv stands show ?thesis by (auto simp: tracker_iteration_def Let_def)
qed

text \<open>Reporting extrema in the driving loop.\<close>

lemma emit_at_ok:
  assumes "lengths_agree (out_idx_extrema r) (out_extrema_refined r)" "k < length (out_idx_extrema r)"
  shows "\<exists>d'. emit_at r k d = Inr d' \<and> extrema d' = extrema d @ [out_idx_extrema r ! k]
              \<and> d_count d' = d_count d"
  using assms
  by (cases "out_extrema_refined r")
     (auto simp: emit_at_def bind_err_def lengths_agree_def py_index_def)

lemma emit_range_ok:
  assumes "lengths_agree (out_idx_extrema r) (out_extrema_refined r)"
    "\<forall>k \<in> set ks. k < length (out_idx_extrema r)"
  shows "\<exists>d'. emit_range r ks d = Inr d'
              \<and> extrema d' = extrema d @ map (\<lambda>k. out_idx_extrema r ! k) ks
              \<and> d_count d' = d_count d"
  using assms(2)
proof (induction ks arbitrary: d)
  case Nil
  then show ?case by simp
next
  case (Cons k ks)
  from emit_at_ok [OF assms(1), of k d] Cons.prems obtain d1 where
    d1: "emit_at r k d = Inr d1" "extrema d1 = extrema d @ [out_idx_extrema r ! k]"
      "d_count d1 = d_count d" by auto
  from Cons.IH [of d1] Cons.prems obtain d2 where
    d2: "emit_range r ks d1 = Inr d2"
      "extrema d2 = extrema d1 @ map (\<lambda>k. out_idx_extrema r ! k) ks" "d_count d2 = d_count d1"
    by auto
  from d1 d2 show ?case by (simp add: bind_err_def)
qed

lemma take_as_map_nth: "n \<le> length xs \<Longrightarrow> map (\<lambda>k. xs ! k) [0..<n] = take n xs"
  by (simp add: list_eq_iff_nth_eq)

lemma report_ok:
  assumes la: "lengths_agree (out_idx_extrema r) (out_extrema_refined r)"
  shows "\<exists>d'. report r d = Inr d'
              \<and> extrema d' = extrema d @ reported (d_count d) (out_idx_extrema r)
              \<and> d_count d' = d_count d"
proof (cases "2 * N - 1 \<le> length (out_idx_extrema r)")
  case False
  then show ?thesis by (simp add: report_def reported_def)
next
  case True
  then have N: "N < length (out_idx_extrema r)" by (simp add: N_def)
  show ?thesis
  proof (cases "d_count d = 1")
    case c1: True
    from N have "\<forall>k \<in> set [0..<N]. k < length (out_idx_extrema r)" by simp
    from emit_range_ok [OF la this, of d] obtain d1 where
      d1: "emit_range r [0..<N] d = Inr d1"
        "extrema d1 = extrema d @ map (\<lambda>k. out_idx_extrema r ! k) [0..<N]"
        "d_count d1 = d_count d" by auto
    from emit_at_ok [OF la N, of d1] obtain d2 where
      d2: "emit_at r N d1 = Inr d2" "extrema d2 = extrema d1 @ [out_idx_extrema r ! N]"
        "d_count d2 = d_count d1" by auto
    from d1 d2 True c1 N show ?thesis
      by (simp add: report_def reported_def bind_err_def take_as_map_nth)
  next
    case c2: False
    from emit_at_ok [OF la N, of d] obtain d2 where
      d2: "emit_at r N d = Inr d2" "extrema d2 = extrema d @ [out_idx_extrema r ! N]"
        "d_count d2 = d_count d" by auto
    from d2 True c2 show ?thesis
      by (simp add: report_def reported_def bind_err_def)
  qed
qed

lemma find_extrema_step_cases:
  assumes "FindExtremaNearIdxRef lib a (d_idx_ref d) (d_K d) (d_p d) = Inr (x, r)"
  shows "\<exists>d2. report r (d\<lparr>d_count := d_count d + 1, d_p := out_p r, d_K := out_K r,
                          d_idx_ref := out_idx_ref r\<rparr>) = Inr d2
              \<and> d_count d2 = d_count d + 1
              \<and> find_extrema_step lib a d =
                  (if length (out_idx_extrema r) < 2 * N + 1 then Finished d2
                   else if 1000 \<le> d_count d then Failed SafetyCap
                   else Again (d2\<lparr>d_idx_ref := midpoint (out_idx_extrema r ! N)
                                                          (out_idx_extrema r ! (N + 1))\<rparr>))"
proof -
  let ?d1 = "d\<lparr>d_count := d_count d + 1, d_p := out_p r, d_K := out_K r,
                 d_idx_ref := out_idx_ref r\<rparr>"
  from assms FindExtremaNearIdxRef_extrema
  have la: "lengths_agree (out_idx_extrema r) (out_extrema_refined r)" by blast
  from report_ok [OF la, of ?d1] obtain d2 where
    d2: "report r ?d1 = Inr d2" "d_count d2 = d_count d + 1" by auto
  have mid: "2 * N + 1 \<le> length (out_idx_extrema r) \<Longrightarrow>
             bind_err (py_index (out_idx_extrema r) (int N)) (\<lambda>e1.
                     bind_err (py_index (out_idx_extrema r) (int N + 1)) (\<lambda>e2.
                       Inr (midpoint e1 e2)))
                    = Inr (midpoint (out_idx_extrema r ! N) (out_idx_extrema r ! (N + 1)))"
    by (simp add: bind_err_def py_index_def N_def nat_add_distrib)
  from assms d2 mid have "find_extrema_step lib a d =
                  (if length (out_idx_extrema r) < 2 * N + 1 then Finished d2
                   else if 1000 \<le> d_count d then Failed SafetyCap
                   else Again (d2\<lparr>d_idx_ref := midpoint (out_idx_extrema r ! N)
                                                          (out_idx_extrema r ! (N + 1))\<rparr>))"
    by (simp add: find_extrema_step_def Let_def)
  with d2 show ?thesis by blast
qed

lemma find_extrema_loop_Failed:
  "find_extrema_step lib a d = Failed e \<Longrightarrow> find_extrema_loop lib a d = Inl e"
  by (simp add: find_extrema_loop.simps)

subsection \<open>The example inputs evaluated\<close>

lemma local_maxima_range:
  "e \<in> set (local_maxima_from i xs) \<Longrightarrow> Suc i \<le> e \<and> e < i + length xs"
  by (induction i xs rule: local_maxima_from.induct) (auto split: if_splits)

lemma local_maxima_after_descent:
  "e \<in> set (local_maxima_from i (y # z # zs)) \<Longrightarrow> z < y \<Longrightarrow> i + 2 \<le> e"
proof (cases zs)
  case Nil
  assume "e \<in> set (local_maxima_from i (y # z # zs))" with Nil show ?thesis by simp
next
  case (Cons w ws)
  assume e: "e \<in> set (local_maxima_from i (y # z # zs))" and d: "z < y"
  with Cons have "e \<in> set (local_maxima_from (Suc i) (z # w # ws))" by simp
  from local_maxima_range [OF this] show ?thesis by simp
qed

lemma local_maxima_gap:
  "sorted_wrt (\<lambda>i j. i + 2 \<le> j) (local_maxima_from i xs)"
proof (induction i xs rule: local_maxima_from.induct)
  case (1 i x y z zs)
  show ?case
    using 1 local_maxima_after_descent [of _ "Suc i" y z zs]
          local_maxima_range [of _ "Suc i" "y # z # zs"]
    by (auto simp: sorted_wrt_append)
qed simp_all


lemma plain_library_sorted: "peaks_sorted plain_library"
  using local_maxima_gap [of 0, THEN gap_sorted]
  by (simp add: peaks_sorted_def plain_library_def)

lemmas tracker_defs =
  FindExtremaNearIdxRef_def initial_state_def
  tracker_iteration_def survey_window_def find_window_extrema_def bind_err_def
  slice_def peak_config_def gather_def Nleft_of_def Nright_of_def adjust_window_def
  adjust_left_def adjust_right_def window_changed_def update_K_def update_Count_def
  settle_def shortfall_def max_delta_omega_def list_max_def list_min_def py_index_def
  argmax_gt_def np_argmax_def np_pi_def py_int_def midpoint_def
  plain_library_def zero_trend_def Let_def

lemmas example_defs =
  tracker_defs two_peak_args_def monotone_args_def eight_peak_args_def
  two_peak_start_def advance_start_def eight_peak_start_def monotone_start_def

lemmas sloping_defs =
  tracker_defs sloping_args_def sloping_start_def sloping_refitted_def line_library_def
  line_fit_def within_bounds_def linear_trend_def

lemmas slow_tail_defs = tracker_defs slow_tail_args_def slow_tail_state_def slow_tail_start_def

lemma replicate_numeral: "replicate (numeral k) x = x # replicate (pred_numeral k) x"
  by (simp add: numeral_eq_Suc)

text \<open>The states at the entry of the loop.\<close>

lemma two_peak_initial: "initial_state (two_peak_args 1) 3 2 (0, 0, 0) = Inr two_peak_start"
  by (simp add: example_defs replicate_numeral)

lemma advance_initial: "initial_state (two_peak_args 2) 1 3 (0, 0, 0) = Inr advance_start"
  by (simp add: example_defs replicate_numeral)

lemma eight_peak_initial:
  "initial_state eight_peak_args 8 1 (0, 0, 0) = Inr eight_peak_start"
  by (simp add: example_defs replicate_numeral)

lemma sloping_initial:
  "initial_state sloping_args 8 1 (2, 1 / 20, 1 / 2) = Inr sloping_start"
  by (simp add: tracker_defs sloping_args_def sloping_start_def replicate_numeral)

lemma slow_tail_initial: "initial_state slow_tail_args 6 1 (0, 0, 0) = Inr slow_tail_start"
  by (simp add: slow_tail_defs replicate_numeral)

lemma monotone_initial: "initial_state monotone_args 3 1 (0, 0, 0) = Inr monotone_start"
  by (simp add: example_defs replicate_numeral)


text \<open>Whole runs of \<^verbatim>\<open>FindExtremaNearIdxRef\<close>, and single passes of its loop.\<close>

lemma two_peak_run:
  "FindExtremaNearIdxRef plain_library (two_peak_args 1) 3 2 (0, 0, 0) =
     Inr (ShortfallExit,
       \<lparr>out_idx_extrema = [2, 4], out_p = (0, 0, 0), out_K = 20 / (4 * np_pi),
        out_idx_ref = 3, out_extrema_refined = ([2, 4], [4, 4], [20, 40])\<rparr>)"
  by (simp add: tracker_defs tracker_loop.simps two_peak_args_def)

lemma advance_run:
  "FindExtremaNearIdxRef plain_library (two_peak_args 2) 1 3 (0, 0, 0) =
     Inr (ShortfallExit,
       \<lparr>out_idx_extrema = [2, 4], out_p = (0, 0, 0), out_K = 20 / (4 * np_pi),
        out_idx_ref = 3, out_extrema_refined = ([2, 4], [4, 4], [20, 40])\<rparr>)"
  by (simp add: tracker_defs tracker_loop.simps two_peak_args_def)

lemma monotone_run:
  "FindExtremaNearIdxRef plain_library monotone_args 3 1 (0, 0, 0) =
     Inr (EarlyExit,
       \<lparr>out_idx_extrema = [], out_p = (0, 0, 0), out_K = 1,
        out_idx_ref = 3, out_extrema_refined = ([], [], [])\<rparr>)"
  by (simp add: tracker_defs tracker_loop.simps monotone_args_def)

lemma eight_peak_run:
  "FindExtremaNearIdxRef plain_library eight_peak_args 8 1 (0, 0, 0) =
     Inr (ConvergedExit,
       \<lparr>out_idx_extrema = [3, 5, 7, 9, 11, 13, 15], out_p = (0, 0, 0),
        out_K = 72 / (4 * np_pi * 6), out_idx_ref = 8,
        out_extrema_refined = ([3, 5, 7, 9, 11, 13, 15], [4, 4, 4, 4, 4, 4, 4],
            [18, 30, 42, 54, 66, 78, 90])\<rparr>)"
  by (simp add: tracker_defs tracker_loop.simps eight_peak_args_def)




text \<open>The run on \<open>sloping_args\<close>: two passes over the same window.\<close>

lemma sloping_first_detection:
  "find_window_extrema line_library sloping_args (sloping_start\<lparr>it := 1\<rparr>) =
     Inr \<lparr>ob_cfg = (0, 279 / 2000), ob_idx_extrema = [3, 5, 7, 9, 11, 13, 15],
          ob_t_extrema = [3, 5, 7, 9, 11, 13, 15],
          ob_omega22_extrema = [43 / 10, 9 / 2, 47 / 10, 49 / 10, 51 / 10, 53 / 10, 11 / 2],
          ob_phase22_extrema = [18, 30, 42, 54, 66, 78, 90]\<rparr>"
  by (simp add: sloping_defs)

lemma sloping_first:
  "tracker_iteration line_library sloping_args sloping_start = Next sloping_refitted"
  by (simp add: sloping_defs)

lemma sloping_second_detection:
  "find_window_extrema line_library sloping_args (sloping_refitted\<lparr>it := 2\<rparr>) =
     Inr \<lparr>ob_cfg = (0, 3 / 25), ob_idx_extrema = [3, 5, 7, 9, 11, 13, 15],
          ob_t_extrema = [3, 5, 7, 9, 11, 13, 15],
          ob_omega22_extrema = [43 / 10, 9 / 2, 47 / 10, 49 / 10, 51 / 10, 53 / 10, 11 / 2],
          ob_phase22_extrema = [18, 30, 42, 54, 66, 78, 90]\<rparr>"
  by (simp add: sloping_defs)

lemma sloping_second:
  "tracker_iteration line_library sloping_args sloping_refitted =
     Returned ConvergedExit
       \<lparr>out_idx_extrema = [3, 5, 7, 9, 11, 13, 15], out_p = (4, 1 / 10, 1 / 2),
        out_K = 72 / (4 * np_pi * 6), out_idx_ref = 8,
        out_extrema_refined = ([3, 5, 7, 9, 11, 13, 15],
            [43 / 10, 9 / 2, 47 / 10, 49 / 10, 51 / 10, 53 / 10, 11 / 2],
            [18, 30, 42, 54, 66, 78, 90])\<rparr>"
  by (simp add: sloping_defs)

lemma sloping_run:
  "FindExtremaNearIdxRef line_library sloping_args 8 1 (2, 1 / 20, 1 / 2) =
     Inr (ConvergedExit,
       \<lparr>out_idx_extrema = [3, 5, 7, 9, 11, 13, 15], out_p = (4, 1 / 10, 1 / 2),
        out_K = 72 / (4 * np_pi * 6), out_idx_ref = 8,
        out_extrema_refined = ([3, 5, 7, 9, 11, 13, 15],
            [43 / 10, 9 / 2, 47 / 10, 49 / 10, 51 / 10, 53 / 10, 11 / 2],
            [18, 30, 42, 54, 66, 78, 90])\<rparr>)"
  by (simp add: FindExtremaNearIdxRef_def sloping_initial bind_err_def
        tracker_loop.simps [of _ _ sloping_start] sloping_first
        tracker_loop.simps [of _ _ sloping_refitted] sloping_second)

text \<open>The run on \<open>slow_tail_args\<close>: four passes widen the window by one sample each, up
  to the end of the data; the fifth leaves it as it is.\<close>

lemma slow_tail_first:
  "tracker_iteration plain_library slow_tail_args slow_tail_start = Next (slow_tail_state 12 1)"
  by (simp add: slow_tail_defs)

lemma slow_tail_second:
  "tracker_iteration plain_library slow_tail_args (slow_tail_state 12 1) = Next (slow_tail_state 13 2)"
  by (simp add: slow_tail_defs)

lemma slow_tail_third:
  "tracker_iteration plain_library slow_tail_args (slow_tail_state 13 2) = Next (slow_tail_state 14 3)"
  by (simp add: slow_tail_defs)

lemma slow_tail_fourth:
  "tracker_iteration plain_library slow_tail_args (slow_tail_state 14 3) = Next (slow_tail_state 15 4)"
  by (simp add: slow_tail_defs)

lemma slow_tail_fifth_survey:
  "survey_window plain_library slow_tail_args (slow_tail_state 15 4) =
     Inr (Found
       \<lparr>sv_state = slow_tail_state 15 5,
        sv_idx_extrema = [1, 3, 5, 7, 9],
        sv_extrema = ([1, 3, 5, 7, 9], [4, 4, 4, 4, 4], [6, 18, 30, 42, 54]),
        sv_mismatch = True\<rparr>)"
  by (simp add: slow_tail_defs)

lemma slow_tail_fifth:
  "tracker_iteration plain_library slow_tail_args (slow_tail_state 15 4) =
     Returned ShortfallExit
       \<lparr>out_idx_extrema = [1, 3, 5, 7, 9], out_p = (0, 0, 0), out_K = 48 / (4 * np_pi * 4),
        out_idx_ref = 6,
        out_extrema_refined = ([1, 3, 5, 7, 9], [4, 4, 4, 4, 4], [6, 18, 30, 42, 54])\<rparr>"
  by (simp add: slow_tail_defs)

lemma slow_tail_run:
  "FindExtremaNearIdxRef plain_library slow_tail_args 6 1 (0, 0, 0) =
     Inr (ShortfallExit,
       \<lparr>out_idx_extrema = [1, 3, 5, 7, 9], out_p = (0, 0, 0), out_K = 48 / (4 * np_pi * 4),
        out_idx_ref = 6,
        out_extrema_refined = ([1, 3, 5, 7, 9], [4, 4, 4, 4, 4], [6, 18, 30, 42, 54])\<rparr>)"
  by (simp add: FindExtremaNearIdxRef_def slow_tail_initial bind_err_def
        tracker_loop.simps [of _ _ slow_tail_start] slow_tail_first
        tracker_loop.simps [of _ _ "slow_tail_state 12 1"] slow_tail_second
        tracker_loop.simps [of _ _ "slow_tail_state 13 2"] slow_tail_third
        tracker_loop.simps [of _ _ "slow_tail_state 14 3"] slow_tail_fourth
        tracker_loop.simps [of _ _ "slow_tail_state 15 4"] slow_tail_fifth
        del: One_nat_def)

text \<open>The run on \<open>late_pair_args\<close>, pass by pass: the first pass and the next
  eighteen each widen the window by one sample, the twentieth by four, and the
  twenty-first returns.\<close>

lemma late_pair_first:
  "tracker_iteration plain_library late_pair_args late_pair_start = Next (late_pair_state 6 1)"
  by (simp add: tracker_defs late_pair_args_def late_pair_start_def late_pair_state_def)

lemma late_pair_second_detection:
  "find_window_extrema plain_library late_pair_args ((late_pair_state 6 1)\<lparr>it := 2\<rparr>) =
     Inr \<lparr>ob_cfg = (0, 3 / 25), ob_idx_extrema = [2], ob_t_extrema = [2],
          ob_omega22_extrema = [6], ob_phase22_extrema = [10]\<rparr>"
  by (simp add: tracker_defs late_pair_args_def late_pair_state_def)

lemma late_pair_fresh_config:
  "fresh_config late_pair_args late_pair_start = Inr (0, 3 / 25)"
  "fresh_config late_pair_args (late_pair_state 6 1) = Inr (0, 9 / 50)"
  by (simp_all add: fresh_config_def window_residual_def tracker_defs late_pair_args_def
        late_pair_start_def late_pair_state_def)






subsection \<open>The reference index\<close>

text \<open>
  Claim C9.  Whenever \<^verbatim>\<open>FindExtremaNearIdxRef\<close> returns, the reference index it
  returns is at least the one passed in, and it is the one passed in when
  \<^verbatim>\<open>increase_idx_ref_if_needed\<close> is false.  The peak detector is taken to return
  its indices in increasing order.
\<close>

theorem idx_ref_never_decreased:
  assumes "peaks_sorted lib"
    and "FindExtremaNearIdxRef lib a ref K p_initial = Inr (x, r)"
  shows "ref \<le> out_idx_ref r \<and> (\<not> increase_idx_ref_if_needed a \<longrightarrow> out_idx_ref r = ref)"
proof -
  from assms(2) obtain s where s: "initial_state a ref K p_initial = Inr s"
    and l: "tracker_loop lib a s = Inr (x, r)"
    by (auto simp: FindExtremaNearIdxRef_def bind_err_def split: sum.splits)
  from s have "idx_ref s = ref"
    by (auto simp: initial_state_def bind_err_def Let_def split: sum.splits)
  with tracker_loop_ref_ge [OF assms(1) l] show ?thesis by simp
qed

theorem idx_ref_never_decreased_witness:
  "FindExtremaNearIdxRef plain_library (two_peak_args 2) 1 3 (0, 0, 0) =
     Inr (ShortfallExit,
       \<lparr>out_idx_extrema = [2, 4], out_p = (0, 0, 0), out_K = 20 / (4 * np_pi),
        out_idx_ref = 3, out_extrema_refined = ([2, 4], [4, 4], [20, 40])\<rparr>)
   \<and> (1 :: nat) \<le> 3"
  using idx_ref_never_decreased [OF plain_library_sorted advance_run] advance_run
  by simp

subsection \<open>The counts on both sides of the reference index\<close>




subsection \<open>The arrays returned without refinement\<close>

text \<open>
  Claim C4, as stated, fails: with refinement disabled the returned arrays are not
  empty.  On the seven samples of \<open>two_peak_args\<close> the tracker returns the extrema 2
  and 4 together with the times, frequencies and phases at these indices.
\<close>

theorem unrefined_arrays_not_empty:
  "\<not> refine_extrema (two_peak_args 1)
   \<and> FindExtremaNearIdxRef plain_library (two_peak_args 1) 3 2 (0, 0, 0) =
     Inr (ShortfallExit,
       \<lparr>out_idx_extrema = [2, 4], out_p = (0, 0, 0), out_K = 20 / (4 * np_pi),
        out_idx_ref = 3, out_extrema_refined = ([2, 4], [4, 4], [20, 40])\<rparr>)
   \<and> ([2, 4], [4, 4], [20, 40]) \<noteq> (([], [], []) :: real list \<times> real list \<times> real list)"
  using two_peak_run by (simp add: two_peak_args_def)

text \<open>
  Claim C4, amended.  When sub-sample refinement is disabled, the three arrays returned
  by \<^verbatim>\<open>FindExtremaNearIdxRef\<close> have the length of the returned list of indices
  and hold the values of \<^verbatim>\<open>t\<close>, \<^verbatim>\<open>omega22\<close> and \<^verbatim>\<open>phase22\<close> at these
  indices.
\<close>

theorem unrefined_arrays_are_grid_values:
  assumes "\<not> refine_extrema a"
    and "FindExtremaNearIdxRef lib a ref K p_initial = Inr (x, r)"
  shows "out_extrema_refined r = grid_values a (out_idx_extrema r)
         \<and> length (fst (out_extrema_refined r)) = length (out_idx_extrema r)"
  using FindExtremaNearIdxRef_extrema [OF assms(2)] assms(1)
  by (simp add: grid_values_def)

theorem unrefined_arrays_are_grid_values_witness:
  "\<not> refine_extrema (two_peak_args 2)
   \<and> FindExtremaNearIdxRef plain_library (two_peak_args 2) 1 3 (0, 0, 0) =
     Inr (ShortfallExit,
       \<lparr>out_idx_extrema = [2, 4], out_p = (0, 0, 0), out_K = 20 / (4 * np_pi),
        out_idx_ref = 3, out_extrema_refined = ([2, 4], [4, 4], [20, 40])\<rparr>)
   \<and> grid_values (two_peak_args 2) [2, 4] = ([2, 4], [4, 4], [20, 40])"
proof -
  have nr: "\<not> refine_extrema (two_peak_args 2)" by (simp add: two_peak_args_def)
  from unrefined_arrays_are_grid_values [OF nr advance_run] nr advance_run
  show ?thesis by simp
qed

subsection \<open>The shortfall exit\<close>




subsection \<open>The configuration of the peak detector\<close>

text \<open>
  Claim C6, as stated, fails: after a refit of the trend the configuration is computed
  again within the same invocation, for the same window.  On \<open>sloping_args\<close>, with an
  initial guess inside the bounds, the first pass calls the detector with width 0 and
  prominence 279/2000 on the window from index 2 to 17 and refits the trend; the second
  pass calls it on the same window with prominence 3/25, and the invocation returns.
\<close>

theorem peak_config_recomputed_after_refit:
  "within_bounds (bounds sloping_args) (2, 1 / 20, 1 / 2)
   \<and> FindExtremaNearIdxRef line_library sloping_args 8 1 (2, 1 / 20, 1 / 2) =
     Inr (ConvergedExit,
       \<lparr>out_idx_extrema = [3, 5, 7, 9, 11, 13, 15], out_p = (4, 1 / 10, 1 / 2),
        out_K = 72 / (4 * np_pi * 6), out_idx_ref = 8,
        out_extrema_refined = ([3, 5, 7, 9, 11, 13, 15],
            [43 / 10, 9 / 2, 47 / 10, 49 / 10, 51 / 10, 53 / 10, 11 / 2],
            [18, 30, 42, 54, 66, 78, 90])\<rparr>)
   \<and> initial_state sloping_args 8 1 (2, 1 / 20, 1 / 2) = Inr sloping_start
   \<and> find_window_extrema line_library sloping_args (sloping_start\<lparr>it := 1\<rparr>) =
     Inr \<lparr>ob_cfg = (0, 279 / 2000), ob_idx_extrema = [3, 5, 7, 9, 11, 13, 15],
          ob_t_extrema = [3, 5, 7, 9, 11, 13, 15],
          ob_omega22_extrema = [43 / 10, 9 / 2, 47 / 10, 49 / 10, 51 / 10, 53 / 10, 11 / 2],
          ob_phase22_extrema = [18, 30, 42, 54, 66, 78, 90]\<rparr>
   \<and> tracker_iteration line_library sloping_args sloping_start = Next sloping_refitted
   \<and> find_window_extrema line_library sloping_args (sloping_refitted\<lparr>it := 2\<rparr>) =
     Inr \<lparr>ob_cfg = (0, 3 / 25), ob_idx_extrema = [3, 5, 7, 9, 11, 13, 15],
          ob_t_extrema = [3, 5, 7, 9, 11, 13, 15],
          ob_omega22_extrema = [43 / 10, 9 / 2, 47 / 10, 49 / 10, 51 / 10, 53 / 10, 11 / 2],
          ob_phase22_extrema = [18, 30, 42, 54, 66, 78, 90]\<rparr>
   \<and> idx_lo sloping_refitted = idx_lo sloping_start
   \<and> idx_hi sloping_refitted = idx_hi sloping_start
   \<and> (279 / 2000 :: real) \<noteq> 3 / 25"
  using sloping_run sloping_initial sloping_first_detection sloping_first
        sloping_second_detection
  by (simp add: within_bounds_def sloping_args_def sloping_start_def sloping_refitted_def)

text \<open>
  Claim C6, amended.  Within one invocation the configuration of the peak detector is
  computed in the first iteration and in the first iteration after each refit of the
  trend, and held fixed across the window-adjusting iterations in between.  In detail:
  the invocation starts with the configuration flagged for computation; every iteration
  calls \<^verbatim>\<open>find_peaks\<close> on the residual of its window with the configuration it
  records, which is the one computed from the window when the flag is set (the width
  \<^verbatim>\<open>int(0.5 * 2 * pi / max(omega22) / maxdt)\<close> and 3 per cent of the difference
  between the largest and the smallest residual) and the one handed on otherwise; an
  iteration that ends by adjusting the window hands its configuration on with the trend
  parameters unchanged, so that the next iteration calls \<^verbatim>\<open>find_peaks\<close> on the new
  window with the same width and prominence; an iteration that ends by refitting the
  trend sets the flag.
\<close>

theorem peak_config_held_between_refits:
  "(initial_state a ref K p_initial = Inr s0 \<longrightarrow> prominence s0 = None)
   \<and> (find_window_extrema lib a s = Inr ob \<longrightarrow>
        detect_with lib a s (ob_cfg ob) = Inr (ob_idx_extrema ob)
        \<and> (case prominence s of
             None \<Rightarrow> fresh_config a s = Inr (ob_cfg ob)
           | Some held \<Rightarrow> ob_cfg ob = held))
   \<and> (fresh_config a s = Inr cfg \<longrightarrow>
        (\<exists>omega_residual. window_residual a s = Inr omega_residual
           \<and> fst cfg = py_int (0.5 * 2 * np_pi / list_max (slice (idx_lo s) (idx_hi s) (omega22 a))
                                / list_max (np_diff (slice (idx_lo s) (idx_hi s) (t_arr a))))
           \<and> snd cfg = (list_max omega_residual - list_min omega_residual) * 0.03))
   \<and> (tracker_iteration lib a s = Next s' \<longrightarrow>
        (\<exists>ob1 sv. find_window_extrema lib a (s\<lparr>it := it s + 1\<rparr>) = Inr ob1
           \<and> survey_window lib a s = Inr (Found sv)
           \<and> (if sv_mismatch sv
                   \<and> window_changed (sv_state sv) (idx_lo (sv_state sv)) (idx_hi (sv_state sv))
               then prominence s' = Some (ob_cfg ob1) \<and> p_cur s' = p_cur s
               else prominence s' = None
                    \<and> curve_fit lib (f_fit a) (fst (sv_extrema sv)) (fst (snd (sv_extrema sv)))
                         (p_cur s) (bounds a) = Inr (p_cur s'))))
   \<and> (tracker_iteration lib a s = Next s' \<and> prominence s' = Some c
        \<and> find_window_extrema lib a (s'\<lparr>it := it s' + 1\<rparr>) = Inr ob2 \<longrightarrow>
        (\<exists>ob1. find_window_extrema lib a (s\<lparr>it := it s + 1\<rparr>) = Inr ob1
           \<and> ob_cfg ob1 = c \<and> ob_cfg ob2 = c
           \<and> detect_with lib a s' c = Inr (ob_idx_extrema ob2)))"
proof (intro conjI impI)
  assume "initial_state a ref K p_initial = Inr s0"
  then show "prominence s0 = None" by (rule initial_state_flag)
next
  assume ob: "find_window_extrema lib a s = Inr ob"
  from find_window_extrema_detect(1) [OF ob]
  show "detect_with lib a s (ob_cfg ob) = Inr (ob_idx_extrema ob)" .
  from find_window_extrema_detect(2,3) [OF ob]
  show "case prominence s of
             None \<Rightarrow> fresh_config a s = Inr (ob_cfg ob)
           | Some held \<Rightarrow> ob_cfg ob = held"
    by (simp split: option.splits)
next
  assume "fresh_config a s = Inr cfg"
  then show "\<exists>omega_residual. window_residual a s = Inr omega_residual
           \<and> fst cfg = py_int (0.5 * 2 * np_pi / list_max (slice (idx_lo s) (idx_hi s) (omega22 a))
                                / list_max (np_diff (slice (idx_lo s) (idx_hi s) (t_arr a))))
           \<and> snd cfg = (list_max omega_residual - list_min omega_residual) * 0.03"
    by (rule fresh_config_rule)
next
  assume "tracker_iteration lib a s = Next s'"
  then show "\<exists>ob1 sv. find_window_extrema lib a (s\<lparr>it := it s + 1\<rparr>) = Inr ob1
           \<and> survey_window lib a s = Inr (Found sv)
           \<and> (if sv_mismatch sv
                   \<and> window_changed (sv_state sv) (idx_lo (sv_state sv)) (idx_hi (sv_state sv))
               then prominence s' = Some (ob_cfg ob1) \<and> p_cur s' = p_cur s
               else prominence s' = None
                    \<and> curve_fit lib (f_fit a) (fst (sv_extrema sv)) (fst (snd (sv_extrema sv)))
                         (p_cur s) (bounds a) = Inr (p_cur s'))"
    by (rule tracker_iteration_hands_on)
next
  assume h: "tracker_iteration lib a s = Next s' \<and> prominence s' = Some c
        \<and> find_window_extrema lib a (s'\<lparr>it := it s' + 1\<rparr>) = Inr ob2"
  from tracker_iteration_hands_on [of lib a s s'] h obtain ob1 sv where
    ob1: "find_window_extrema lib a (s\<lparr>it := it s + 1\<rparr>) = Inr ob1"
    and c: "ob_cfg ob1 = c"
    by (auto split: if_splits)
  from h have ob2: "find_window_extrema lib a (s'\<lparr>it := it s' + 1\<rparr>) = Inr ob2" by simp
  from h have "prominence (s'\<lparr>it := it s' + 1\<rparr>) = Some c" by simp
  from find_window_extrema_detect(3) [OF ob2 this] have c2: "ob_cfg ob2 = c" .
  from find_window_extrema_detect(1) [OF ob2] c2
  have "detect_with lib a s' c = Inr (ob_idx_extrema ob2)" by simp
  with ob1 c c2 show "\<exists>ob1. find_window_extrema lib a (s\<lparr>it := it s + 1\<rparr>) = Inr ob1
           \<and> ob_cfg ob1 = c \<and> ob_cfg ob2 = c
           \<and> detect_with lib a s' c = Inr (ob_idx_extrema ob2)" by blast
qed

theorem peak_config_held_between_refits_witness:
  "tracker_iteration plain_library late_pair_args late_pair_start = Next (late_pair_state 6 1)
   \<and> prominence (late_pair_state 6 1) = Some (0, 3 / 25)
   \<and> fresh_config late_pair_args late_pair_start = Inr (0, 3 / 25)
   \<and> fresh_config late_pair_args (late_pair_state 6 1) = Inr (0, 9 / 50)
   \<and> find_window_extrema plain_library late_pair_args ((late_pair_state 6 1)\<lparr>it := 2\<rparr>) =
       Inr \<lparr>ob_cfg = (0, 3 / 25), ob_idx_extrema = [2], ob_t_extrema = [2],
            ob_omega22_extrema = [6], ob_phase22_extrema = [10]\<rparr>
   \<and> detect_with plain_library late_pair_args (late_pair_state 6 1) (0, 3 / 25) = Inr [2]"
proof -
  have p: "prominence (late_pair_state 6 1) = Some (0, 3 / 25)"
    and i: "(late_pair_state 6 1)\<lparr>it := it (late_pair_state 6 1) + 1\<rparr>
              = (late_pair_state 6 1)\<lparr>it := 2\<rparr>"
    by (simp_all add: late_pair_state_def)
  have "detect_with plain_library late_pair_args (late_pair_state 6 1) (0, 3 / 25) = Inr [2]"
    using peak_config_held_between_refits
         [where lib = plain_library and a = late_pair_args and s = late_pair_start
            and s' = "late_pair_state 6 1" and c = "(0, 3 / 25)"
            and ref = 3 and K = 1 and p_initial = "(0, 0, 0)" and ?s0.0 = late_pair_start
            and cfg = "(0, 3 / 25)"
            and ob = "\<lparr>ob_cfg = (0, 3 / 25), ob_idx_extrema = [2], ob_t_extrema = [2],
                       ob_omega22_extrema = [6], ob_phase22_extrema = [10]\<rparr>"
            and ?ob2.0 = "\<lparr>ob_cfg = (0, 3 / 25), ob_idx_extrema = [2], ob_t_extrema = [2],
                            ob_omega22_extrema = [6], ob_phase22_extrema = [10]\<rparr>",
          unfolded i]
       late_pair_first p late_pair_second_detection
    by clarsimp
  with late_pair_first p late_pair_fresh_config late_pair_second_detection
  show ?thesis by simp
qed

subsection \<open>The end of the driving loop\<close>

text \<open>
  Claim C1.  When the tracker returns fewer than \<open>2N + 1\<close> extrema, the driving loop
  returns without an error, and its list of extrema is the list so far followed by what
  this pass reports (nothing when fewer than \<open>2N - 1\<close> were returned).  A window
  without any extremum makes the tracker return an empty list, not raise.
\<close>

theorem short_result_ends_run:
  "(FindExtremaNearIdxRef lib a (d_idx_ref d) (d_K d) (d_p d) = Inr (x, r)
      \<and> length (out_idx_extrema r) < 2 * N + 1
    \<longrightarrow> (\<exists>d'. find_extrema_loop lib a d = Inr d'
              \<and> extrema d' = extrema d @ reported (d_count d + 1) (out_idx_extrema r)))
   \<and> (find_window_extrema lib a (s\<lparr>it := it s + 1\<rparr>) = Inr ob \<and> ob_idx_extrema ob = []
    \<longrightarrow> (\<exists>r'. tracker_loop lib a s = Inr (EarlyExit, r') \<and> out_idx_extrema r' = []))"
proof (intro conjI impI)
  assume h: "FindExtremaNearIdxRef lib a (d_idx_ref d) (d_K d) (d_p d) = Inr (x, r)
      \<and> length (out_idx_extrema r) < 2 * N + 1"
  let ?d1 = "d\<lparr>d_count := d_count d + 1, d_p := out_p r, d_K := out_K r,
                 d_idx_ref := out_idx_ref r\<rparr>"
  from h FindExtremaNearIdxRef_extrema
  have la: "lengths_agree (out_idx_extrema r) (out_extrema_refined r)" by blast
  from report_ok [OF la, of ?d1] obtain d2 where
    d2: "report r ?d1 = Inr d2"
      "extrema d2 = extrema d @ reported (d_count d + 1) (out_idx_extrema r)" by auto
  from h d2 have "find_extrema_step lib a d = Finished d2"
    by (simp add: find_extrema_step_def Let_def)
  then have "find_extrema_loop lib a d = Inr d2" by (simp add: find_extrema_loop.simps)
  with d2 show "\<exists>d'. find_extrema_loop lib a d = Inr d'
              \<and> extrema d' = extrema d @ reported (d_count d + 1) (out_idx_extrema r)" by blast
next
  assume h: "find_window_extrema lib a (s\<lparr>it := it s + 1\<rparr>) = Inr ob \<and> ob_idx_extrema ob = []"
  then have "\<exists>r'. tracker_iteration lib a s = Returned EarlyExit r' \<and> out_idx_extrema r' = []"
    by (simp add: tracker_iteration_def survey_window_def bind_err_def Let_def)
  then show "\<exists>r'. tracker_loop lib a s = Inr (EarlyExit, r') \<and> out_idx_extrema r' = []"
    by (auto simp: tracker_loop.simps)
qed

theorem short_result_ends_run_witness:
  "FindExtremaNearIdxRef plain_library monotone_args 3 1 (0, 0, 0) =
     Inr (EarlyExit,
       \<lparr>out_idx_extrema = [], out_p = (0, 0, 0), out_K = 1,
        out_idx_ref = 3, out_extrema_refined = ([], [], [])\<rparr>)
   \<and> (\<exists>d'. find_extrema_loop plain_library monotone_args
              \<lparr>d_count = 0, d_idx_ref = 3, d_K = 1, d_p = (0, 0, 0), extrema = [],
               t_extrema_refined = [], omega22_extrema_refined = [],
               phase22_extrema_refined = []\<rparr> = Inr d'
          \<and> extrema d' = [])
   \<and> (\<exists>r'. tracker_loop plain_library monotone_args monotone_start = Inr (EarlyExit, r')
          \<and> out_idx_extrema r' = [])"
proof -
  have ob: "find_window_extrema plain_library monotone_args
              (monotone_start\<lparr>it := it monotone_start + 1\<rparr>) =
            Inr \<lparr>ob_cfg = (0, 9 / 50), ob_idx_extrema = [], ob_t_extrema = [],
                 ob_omega22_extrema = [], ob_phase22_extrema = []\<rparr>"
    by (simp add: example_defs)
  show ?thesis
    using short_result_ends_run
      [of plain_library monotone_args
          "\<lparr>d_count = 0, d_idx_ref = 3, d_K = 1, d_p = (0, 0, 0), extrema = [],
            t_extrema_refined = [], omega22_extrema_refined = [],
            phase22_extrema_refined = []\<rparr>"
          EarlyExit
          "\<lparr>out_idx_extrema = [], out_p = (0, 0, 0), out_K = 1,
            out_idx_ref = 3, out_extrema_refined = ([], [], [])\<rparr>"
          monotone_start
          "\<lparr>ob_cfg = (0, 9 / 50), ob_idx_extrema = [], ob_t_extrema = [],
            ob_omega22_extrema = [], ob_phase22_extrema = []\<rparr>"]
      monotone_run ob
    by (simp add: reported_def N_def)
qed

text \<open>
  Claim C8, as stated, fails on two counts.  A pass of the driving loop beyond the
  thousandth does not raise when the tracker returns fewer than \<open>2N + 1\<close> extrema: the
  loop entered with a count of 1000 on \<open>monotone_args\<close> returns normally with a count
  of 1001.  And the two caps are not the only safeguards: on \<open>slow_tail_args\<close> the
  invocation of the tracker is ended in its fifth iteration, with five extrema, by the
  counter of iterations short on the right (the test of line 749 holds with the counter
  at 5 and would not hold with the counter at 4).
\<close>

theorem short_pass_beyond_cap_returns:
  "find_extrema_loop plain_library monotone_args
      \<lparr>d_count = 1000, d_idx_ref = 3, d_K = 1, d_p = (0, 0, 0), extrema = [],
       t_extrema_refined = [], omega22_extrema_refined = [], phase22_extrema_refined = []\<rparr>
    = Inr \<lparr>d_count = 1001, d_idx_ref = 3, d_K = 1, d_p = (0, 0, 0), extrema = [],
           t_extrema_refined = [], omega22_extrema_refined = [],
           phase22_extrema_refined = []\<rparr>
   \<and> (1000 :: nat) < 1001
   \<and> FindExtremaNearIdxRef plain_library slow_tail_args 6 1 (0, 0, 0) =
     Inr (ShortfallExit,
       \<lparr>out_idx_extrema = [1, 3, 5, 7, 9], out_p = (0, 0, 0), out_K = 48 / (4 * np_pi * 4),
        out_idx_ref = 6,
        out_extrema_refined = ([1, 3, 5, 7, 9], [4, 4, 4, 4, 4], [6, 18, 30, 42, 54])\<rparr>)
   \<and> survey_window plain_library slow_tail_args (slow_tail_state 15 4) =
     Inr (Found
       \<lparr>sv_state = slow_tail_state 15 5,
        sv_idx_extrema = [1, 3, 5, 7, 9],
        sv_extrema = ([1, 3, 5, 7, 9], [4, 4, 4, 4, 4], [6, 18, 30, 42, 54]),
        sv_mismatch = True\<rparr>)
   \<and> tracker_iteration plain_library slow_tail_args (slow_tail_state 15 4) =
     Returned ShortfallExit
       \<lparr>out_idx_extrema = [1, 3, 5, 7, 9], out_p = (0, 0, 0), out_K = 48 / (4 * np_pi * 4),
        out_idx_ref = 6,
        out_extrema_refined = ([1, 3, 5, 7, 9], [4, 4, 4, 4, 4], [6, 18, 30, 42, 54])\<rparr>
   \<and> it (slow_tail_state 15 5) = 5
   \<and> Count_Nright_short (slow_tail_state 15 5) = 5
   \<and> shortfall 5 (length [1, 3, 5, 7, 9 :: nat]) 5
   \<and> \<not> shortfall 4 (length [1, 3, 5, 7, 9 :: nat]) 5"
  using monotone_run slow_tail_run slow_tail_fifth_survey slow_tail_fifth
  by (simp add: find_extrema_loop.simps find_extrema_step_def report_def N_def
        slow_tail_state_def shortfall_def)

text \<open>
  Claim C8, amended.  When the tracker returns, a pass of the driving loop raises the
  safety exception exactly when the tracker returned at least \<open>2N + 1\<close> extrema and the
  pass is beyond the thousandth; the exception ends the run.  With at least \<open>2N + 1\<close>
  extrema and a pass up to the thousandth the loop goes on to the next pass; with fewer
  the run ends normally, whatever the count.  No pass beyond the thousandth is followed
  by another one, and no iteration of the tracker beyond the twentieth is followed by
  another one.  Besides these two caps the tracker has a third safeguard: an iteration
  that leaves the window as remembered, with the counter of iterations short on the right
  at 5 or more, returns by the exit of line 761.
\<close>

theorem safety_cap_and_counter:
  "(FindExtremaNearIdxRef lib a (d_idx_ref d) (d_K d) (d_p d) = Inr (x, r) \<longrightarrow>
      (find_extrema_step lib a d = Failed SafetyCap
         \<longleftrightarrow> 2 * N + 1 \<le> length (out_idx_extrema r) \<and> 1000 \<le> d_count d)
      \<and> (2 * N + 1 \<le> length (out_idx_extrema r) \<and> 1000 \<le> d_count d
           \<longrightarrow> find_extrema_loop lib a d = Inl SafetyCap)
      \<and> (2 * N + 1 \<le> length (out_idx_extrema r) \<and> d_count d < 1000
           \<longrightarrow> (\<exists>d'. find_extrema_step lib a d = Again d' \<and> d_count d' = d_count d + 1
                     \<and> d_idx_ref d' = midpoint (out_idx_extrema r ! N) (out_idx_extrema r ! (N + 1))))
      \<and> (length (out_idx_extrema r) < 2 * N + 1
           \<longrightarrow> (\<exists>d'. find_extrema_loop lib a d = Inr d' \<and> d_count d' = d_count d + 1)))
   \<and> (find_extrema_step lib a d = Again d'' \<longrightarrow>
        d_count d'' = d_count d + 1 \<and> d_count d'' \<le> 1000)
   \<and> (tracker_iteration lib a s = Next s' \<longrightarrow> it s' = it s + 1 \<and> it s' \<le> 20)
   \<and> (survey_window lib a s = Inr (Found sv)
        \<and> \<not> (sv_mismatch sv
              \<and> window_changed (sv_state sv) (idx_lo (sv_state sv)) (idx_hi (sv_state sv)))
        \<and> 5 \<le> Count_Nright_short (sv_state sv)
        \<longrightarrow> (\<exists>r'. tracker_iteration lib a s = Returned ShortfallExit r'))"
proof (intro conjI impI)
  assume h: "FindExtremaNearIdxRef lib a (d_idx_ref d) (d_K d) (d_p d) = Inr (x, r)"
  from find_extrema_step_cases [OF h] obtain d2 where
    d2: "d_count d2 = d_count d + 1"
    and step: "find_extrema_step lib a d =
                  (if length (out_idx_extrema r) < 2 * N + 1 then Finished d2
                   else if 1000 \<le> d_count d then Failed SafetyCap
                   else Again (d2\<lparr>d_idx_ref := midpoint (out_idx_extrema r ! N)
                                                          (out_idx_extrema r ! (N + 1))\<rparr>))"
    by blast
  from step show "find_extrema_step lib a d = Failed SafetyCap
         \<longleftrightarrow> 2 * N + 1 \<le> length (out_idx_extrema r) \<and> 1000 \<le> d_count d"
    by (auto split: if_splits)
  {
    assume "2 * N + 1 \<le> length (out_idx_extrema r) \<and> 1000 \<le> d_count d"
    with step have "find_extrema_step lib a d = Failed SafetyCap" by simp
    then show "find_extrema_loop lib a d = Inl SafetyCap" by (rule find_extrema_loop_Failed)
  }
  {
    assume "2 * N + 1 \<le> length (out_idx_extrema r) \<and> d_count d < 1000"
    with step d2 show "\<exists>d'. find_extrema_step lib a d = Again d' \<and> d_count d' = d_count d + 1
                     \<and> d_idx_ref d' = midpoint (out_idx_extrema r ! N) (out_idx_extrema r ! (N + 1))"
      by simp
  }
  {
    assume "length (out_idx_extrema r) < 2 * N + 1"
    with step have "find_extrema_step lib a d = Finished d2" by simp
    then have "find_extrema_loop lib a d = Inr d2" by (simp add: find_extrema_loop.simps)
    with d2 show "\<exists>d'. find_extrema_loop lib a d = Inr d' \<and> d_count d' = d_count d + 1"
      by blast
  }
next
  assume ag: "find_extrema_step lib a d = Again d''"
  from find_extrema_step_Again_count [OF ag] show "d_count d'' = d_count d + 1" by simp
  from find_extrema_step_Again_count [OF ag] show "d_count d'' \<le> 1000" by simp
next
  assume nx: "tracker_iteration lib a s = Next s'"
  from tracker_iteration_Next_it [OF nx] show "it s' = it s + 1" by simp
  from tracker_iteration_Next_it [OF nx] show "it s' \<le> 20" by simp
next
  assume "survey_window lib a s = Inr (Found sv)
        \<and> \<not> (sv_mismatch sv
              \<and> window_changed (sv_state sv) (idx_lo (sv_state sv)) (idx_hi (sv_state sv)))
        \<and> 5 \<le> Count_Nright_short (sv_state sv)"
  then show "\<exists>r'. tracker_iteration lib a s = Returned ShortfallExit r'"
    using counter_exit by blast
qed

theorem safety_cap_and_counter_witness:
  "FindExtremaNearIdxRef plain_library eight_peak_args 8 1 (0, 0, 0) =
     Inr (ConvergedExit,
       \<lparr>out_idx_extrema = [3, 5, 7, 9, 11, 13, 15], out_p = (0, 0, 0),
        out_K = 72 / (4 * np_pi * 6), out_idx_ref = 8,
        out_extrema_refined = ([3, 5, 7, 9, 11, 13, 15], [4, 4, 4, 4, 4, 4, 4],
            [18, 30, 42, 54, 66, 78, 90])\<rparr>)
   \<and> find_extrema_step plain_library eight_peak_args
        \<lparr>d_count = 1000, d_idx_ref = 8, d_K = 1, d_p = (0, 0, 0), extrema = [],
         t_extrema_refined = [], omega22_extrema_refined = [],
         phase22_extrema_refined = []\<rparr> = Failed SafetyCap
   \<and> find_extrema_loop plain_library eight_peak_args
        \<lparr>d_count = 1000, d_idx_ref = 8, d_K = 1, d_p = (0, 0, 0), extrema = [],
         t_extrema_refined = [], omega22_extrema_refined = [],
         phase22_extrema_refined = []\<rparr> = Inl SafetyCap
   \<and> (\<exists>d'. find_extrema_step plain_library eight_peak_args
              \<lparr>d_count = 0, d_idx_ref = 8, d_K = 1, d_p = (0, 0, 0), extrema = [],
               t_extrema_refined = [], omega22_extrema_refined = [],
               phase22_extrema_refined = []\<rparr> = Again d'
          \<and> d_count d' = 1 \<and> d_idx_ref d' = 10)
   \<and> survey_window plain_library slow_tail_args (slow_tail_state 15 4) =
     Inr (Found
       \<lparr>sv_state = slow_tail_state 15 5,
        sv_idx_extrema = [1, 3, 5, 7, 9],
        sv_extrema = ([1, 3, 5, 7, 9], [4, 4, 4, 4, 4], [6, 18, 30, 42, 54]),
        sv_mismatch = True\<rparr>)
   \<and> (\<exists>r'. tracker_iteration plain_library slow_tail_args (slow_tail_state 15 4)
              = Returned ShortfallExit r')"
proof -
  let ?r = "\<lparr>out_idx_extrema = [3, 5, 7, 9, 11, 13, 15], out_p = (0, 0, 0),
            out_K = 72 / (4 * np_pi * 6), out_idx_ref = 8,
            out_extrema_refined = ([3, 5, 7, 9, 11, 13, 15], [4, 4, 4, 4, 4, 4, 4],
              [18, 30, 42, 54, 66, 78, 90])\<rparr>"
  let ?d = "\<lambda>c. \<lparr>d_count = c, d_idx_ref = 8, d_K = 1, d_p = (0, 0, 0), extrema = [],
            t_extrema_refined = [], omega22_extrema_refined = [],
            phase22_extrema_refined = []\<rparr>"
  let ?sv = "\<lparr>sv_state = slow_tail_state 15 5,
        sv_idx_extrema = [1, 3, 5, 7, 9],
        sv_extrema = ([1, 3, 5, 7, 9], [4, 4, 4, 4, 4], [6, 18, 30, 42, 54]),
        sv_mismatch = True\<rparr>"
  have a: "find_extrema_step plain_library eight_peak_args (?d 1000) = Failed SafetyCap
           \<and> find_extrema_loop plain_library eight_peak_args (?d 1000) = Inl SafetyCap"
    using safety_cap_and_counter
      [where lib = plain_library and a = eight_peak_args and d = "?d 1000"
         and x = ConvergedExit and r = ?r and d'' = "?d 0"
         and s = eight_peak_start and s' = eight_peak_start and sv = ?sv]
      eight_peak_run
    by (simp add: N_def)
  have b: "\<exists>d'. find_extrema_step plain_library eight_peak_args (?d 0) = Again d'
          \<and> d_count d' = 1 \<and> d_idx_ref d' = 10"
    using safety_cap_and_counter
      [where lib = plain_library and a = eight_peak_args and d = "?d 0"
         and x = ConvergedExit and r = ?r and d'' = "?d 0"
         and s = eight_peak_start and s' = eight_peak_start and sv = ?sv]
      eight_peak_run
    by (simp add: N_def midpoint_def)
  have c: "\<exists>r'. tracker_iteration plain_library slow_tail_args (slow_tail_state 15 4)
              = Returned ShortfallExit r'"
    using safety_cap_and_counter
      [where lib = plain_library and a = slow_tail_args and d = "?d 0"
         and x = ConvergedExit and r = ?r and d'' = "?d 0"
         and s = "slow_tail_state 15 4" and s' = eight_peak_start and sv = ?sv]
      slow_tail_fifth_survey
    by (simp add: slow_tail_state_def window_changed_def)
  from a b c eight_peak_run slow_tail_fifth_survey show ?thesis by simp
qed

end
